theory Spec2Isabelle
  imports Complex_Main
begin

section \<open>JavaScript values\<close>

text \<open>
  The program is JavaScript. A JavaScript number is modelled as a \<^typ>\<open>real\<close>. In the
  colour arithmetic of \<open>ColorManager.js\<close>, where \<open>Math.round\<close> turns a rounding error
  into a different channel value, every arithmetic operation is followed by the
  rounding \<open>fl\<close> of its exact result to an IEEE double. Elsewhere the arithmetic of the
  sources (products, quotients, \<open>Math.min\<close>, \<open>Math.max\<close>, \<open>Math.sqrt\<close>) is read over
  the reals. \<open>NaN\<close> and the infinities are outside the model. Lengths and indices
  of arrays are \<^typ>\<open>nat\<close>. An exception is a value of \<open>js_error\<close>; a method that
  can throw returns an \<open>outcome\<close> together with the object state it leaves behind,
  because the fields assigned before the \<open>throw\<close> keep their new values.
\<close>

datatype js_error = RangeError

datatype 'a outcome = Returned 'a | Threw js_error

text \<open>
  \<open>Array(len)\<close> with a number argument: the length must be an integer in
  \<open>[0, 2^32 - 1]\<close>, otherwise a \<open>RangeError\<close> is thrown. The result is the length of
  the new array.
\<close>

definition js_Array :: "real \<Rightarrow> js_error + nat" where
  "js_Array len =
     (if 0 \<le> len \<and> len < 2 ^ 32 \<and> real_of_int \<lfloor>len\<rfloor> = len
      then Inr (nat \<lfloor>len\<rfloor>) else Inl RangeError)"

text \<open>
  \<open>v || d\<close> on an optional number: \<open>undefined\<close> and \<open>0\<close> are falsy. On an optional
  string: \<open>undefined\<close> and the empty string are falsy. An array is always truthy, so
  \<open>params.points || d\<close> takes \<open>d\<close> only when the field is absent.
\<close>

definition or_num :: "real option \<Rightarrow> real \<Rightarrow> real" where
  "or_num v d = (case v of None \<Rightarrow> d | Some n \<Rightarrow> if n = 0 then d else n)"

definition or_str :: "string option \<Rightarrow> string \<Rightarrow> string" where
  "or_str v d = (case v of None \<Rightarrow> d | Some s \<Rightarrow> if s = [] then d else s)"

text \<open>
  The rounding of a real to the nearest IEEE 754 double (binary64, round to nearest,
  ties to even). A double is an integer multiple of \<open>2^u\<close> with a significand below
  \<open>2^53\<close>: for \<open>2^e \<le> |x| < 2^(e+1)\<close> the unit is \<open>2^(e - 52)\<close>, and below \<open>2^-1022\<close>
  (subnormal numbers) it stays \<open>2^-1074\<close>. \<open>rne\<close> rounds to the nearest integer, a tie
  to the even one. Overflow to infinity (beyond \<open>2^1024\<close>) is not modelled.
\<close>

definition rne :: "real \<Rightarrow> int" where
  "rne y =
     (let f = \<lfloor>y\<rfloor>; d = y - real_of_int f
      in if d < 1 / 2 then f
         else if 1 / 2 < d then f + 1
         else if even f then f else f + 1)"

definition ulp_exp :: "real \<Rightarrow> int" where
  "ulp_exp x = max \<lfloor>log 2 \<bar>x\<bar>\<rfloor> (- 1022) - 52"

definition fl :: "real \<Rightarrow> real" where
  "fl x =
     (if x = 0 then 0
      else real_of_int (rne (x / 2 powr real_of_int (ulp_exp x)))
             * 2 powr real_of_int (ulp_exp x))"

section \<open>Configuration constants\<close>

text \<open>
  \<open>config/constants.js\<close> is imported by every module but is not among the sources, so
  its constants are parameters of the model: \<open>SHIRT_CONFIG\<close>, \<open>FOLD_CONFIG\<close> and
  \<open>DYE_CONFIG\<close> are records that every operation takes as an argument.
  \<open>MAX_LAYERS\<close> is a count and is typed \<^typ>\<open>nat\<close>.
\<close>

record shirt_config =
  CENTER_X :: real
  CENTER_Y :: real
  WIDTH :: real
  HEIGHT :: real

record fold_config =
  MAX_LAYERS :: nat
  LAYER_OPACITY_STEP :: real

record dye_config =
  BRUSH_MIN_SIZE :: real
  BRUSH_MAX_SIZE :: real
  BRUSH_DEFAULT_SIZE :: real
  MIN_INTENSITY :: real
  MAX_INTENSITY :: real
  DEFAULT_INTENSITY :: real
  BLEED_RATE :: real
  ABSORPTION_RATE :: real

section \<open>FoldingEngine.js\<close>

subsection \<open>Folds\<close>

text \<open>
  A crease line \<open>{x1, y1, x2, y2}\<close> and a crumple point \<open>{x, y}\<close> (fields \<open>pt_x\<close>,
  \<open>pt_y\<close> here). A fold object carries its \<open>type\<close> tag, the fields of its family and
  \<open>layerMultiplier\<close>; the four tags of \<open>FOLD_TYPES\<close> are the four constructors.
\<close>

record line =
  x1 :: real
  y1 :: real
  x2 :: real
  y2 :: real

record point =
  pt_x :: real
  pt_y :: real

datatype fold =
    Accordion (direction: string) (numFolds: real) (lines: "line list") (layerMultiplier: real)
  | Spiral (centerX: real) (centerY: real) (rotations: real) (layerMultiplier: real)
  | Crumple (points: "point list") (layerMultiplier: real)
  | Diagonal (angle: real) (layerMultiplier: real)

text \<open>
  The \<open>foldType\<close> argument of \<open>applyFold\<close>: one of the four \<open>FOLD_TYPES\<close>, or any other
  value (\<open>OTHER\<close>), for which \<open>createFold\<close> returns \<open>null\<close>. The \<open>params\<close> object has
  every field optional.
\<close>

datatype fold_type = ACCORDION | SPIRAL | CRUMPLE | DIAGONAL | OTHER

record fold_params =
  p_direction :: "string option"
  p_numFolds :: "real option"
  p_centerX :: "real option"
  p_centerY :: "real option"
  p_rotations :: "real option"
  p_points :: "point list option"
  p_angle :: "real option"

text \<open>
  The loop \<open>for (let i = 1; i <= numFolds; i++) lines.push(mk(i))\<close> of
  \<open>calculateAccordionLines\<close>, with the pushed line given by \<open>mk\<close>. The bound is a
  JavaScript number, so it is compared as a real.
\<close>

function accordion_loop :: "(nat \<Rightarrow> line) \<Rightarrow> real \<Rightarrow> nat \<Rightarrow> line list \<Rightarrow> line list" where
  "accordion_loop mk n i acc =
     (if real i \<le> n then accordion_loop mk n (Suc i) (acc @ [mk i]) else acc)"
  by pat_completeness auto
termination
proof (relation "measure (\<lambda>(mk, n, i, acc). nat (\<lfloor>n\<rfloor> + 1 - int i))")
  show "wf (measure (\<lambda>(mk, n, i, acc). nat (\<lfloor>n\<rfloor> + 1 - int i)))"
    by simp
next
  fix mk :: "nat \<Rightarrow> line" and n :: real and i :: nat and acc :: "line list"
  assume "real i \<le> n"
  then have "int i \<le> \<lfloor>n\<rfloor>"
    by (simp add: le_floor_iff)
  then show "((mk, n, Suc i, acc @ [mk i]), (mk, n, i, acc))
      \<in> measure (\<lambda>(mk, n, i, acc). nat (\<lfloor>n\<rfloor> + 1 - int i))"
    by simp
qed

definition calculateAccordionLines :: "shirt_config \<Rightarrow> string \<Rightarrow> real \<Rightarrow> line list" where
  "calculateAccordionLines sc dir nFolds =
     (if dir = ''horizontal'' then
        (let spacing = HEIGHT sc / (nFolds + 1);
             startY = CENTER_Y sc - HEIGHT sc / 2 + 80
         in accordion_loop
              (\<lambda>i. \<lparr>x1 = CENTER_X sc - WIDTH sc / 2,
                     y1 = startY + spacing * real i,
                     x2 = CENTER_X sc + WIDTH sc / 2,
                     y2 = startY + spacing * real i\<rparr>)
              nFolds 1 [])
      else
        (let spacing = WIDTH sc / (nFolds + 1);
             startX = CENTER_X sc - WIDTH sc / 2;
             startY = CENTER_Y sc - HEIGHT sc / 2 + 80
         in accordion_loop
              (\<lambda>i. \<lparr>x1 = startX + spacing * real i,
                     y1 = startY,
                     x2 = startX + spacing * real i,
                     y2 = startY + HEIGHT sc - 80\<rparr>)
              nFolds 1 []))"

definition createAccordionFold :: "shirt_config \<Rightarrow> fold_params \<Rightarrow> fold" where
  "createAccordionFold sc params =
     (let direction = or_str (p_direction params) ''horizontal'';
          numFolds = or_num (p_numFolds params) 3
      in Accordion direction numFolds (calculateAccordionLines sc direction numFolds) numFolds)"

definition createSpiralFold :: "shirt_config \<Rightarrow> fold_params \<Rightarrow> fold" where
  "createSpiralFold sc params =
     (let centerX = or_num (p_centerX params) (CENTER_X sc);
          centerY = or_num (p_centerY params) (CENTER_Y sc);
          rotations = or_num (p_rotations params) 2
      in Spiral centerX centerY rotations (rotations * 2))"

text \<open>
  \<open>Math.random()\<close> is an input of the model: an operation that draws random numbers
  takes a sequence \<open>rand\<close>, and its \<open>k\<close>-th call of \<open>Math.random()\<close> returns \<open>rand k\<close>.
  In \<open>generateRandomCrumplePoints\<close> point \<open>i\<close> draws its \<open>x\<close> first and its \<open>y\<close> second.
\<close>

definition generateRandomCrumplePoints :: "shirt_config \<Rightarrow> (nat \<Rightarrow> real) \<Rightarrow> nat \<Rightarrow> point list" where
  "generateRandomCrumplePoints sc rand count =
     map (\<lambda>i. \<lparr>pt_x = CENTER_X sc - WIDTH sc / 2 + rand (2 * i) * WIDTH sc,
                pt_y = CENTER_Y sc - HEIGHT sc / 2 + 80 + rand (2 * i + 1) * (HEIGHT sc - 80)\<rparr>)
         [0..<count]"

definition createCrumpleFold :: "shirt_config \<Rightarrow> (nat \<Rightarrow> real) \<Rightarrow> fold_params \<Rightarrow> fold" where
  "createCrumpleFold sc rand params =
     (let points = (case p_points params of
                      Some ps \<Rightarrow> ps
                    | None \<Rightarrow> generateRandomCrumplePoints sc rand 5)
      in Crumple points (real (length points)))"

definition createDiagonalFold :: "shirt_config \<Rightarrow> fold_params \<Rightarrow> fold" where
  "createDiagonalFold sc params =
     (let angle = or_num (p_angle params) 45
      in Diagonal angle 2)"

text \<open>\<open>createFold\<close> returns \<open>null\<close> (here \<open>None\<close>) for an unknown fold type.\<close>

fun createFold :: "shirt_config \<Rightarrow> (nat \<Rightarrow> real) \<Rightarrow> fold_type \<Rightarrow> fold_params \<Rightarrow> fold option" where
  "createFold sc rand ACCORDION params = Some (createAccordionFold sc params)"
| "createFold sc rand SPIRAL params = Some (createSpiralFold sc params)"
| "createFold sc rand CRUMPLE params = Some (createCrumpleFold sc rand params)"
| "createFold sc rand DIAGONAL params = Some (createDiagonalFold sc params)"
| "createFold sc rand OTHER params = None"

subsection \<open>The engine's state and operations\<close>

text \<open>
  The fields of a \<open>FoldingEngine\<close> that its operations read and write: the fold stack
  \<open>folds\<close>, the redo buffer \<open>undoStack\<close> and the derived \<open>layers\<close>. The last element of
  a list is the top of the stack (\<open>push\<close> appends, \<open>pop\<close> removes the last element).
  \<open>visualizeFolds\<close> and \<open>emit\<close> draw on the fold canvas and notify listeners; they
  neither read nor write these three fields and are left out.
\<close>

record layer =
  index :: nat
  opacity :: real

record engine =
  folds :: "fold list"
  undoStack :: "fold list"
  layers :: "layer list"

definition engine_init :: engine where
  "engine_init = \<lparr>folds = [], undoStack = [], layers = []\<rparr>"

text \<open>
  \<open>updateLayers\<close>: \<open>this.layers = []\<close> comes first, so when \<open>Array(...)\<close> throws the
  layers stay empty.
\<close>

definition updateLayers :: "fold_config \<Rightarrow> engine \<Rightarrow> unit outcome \<times> engine" where
  "updateLayers fc s =
     (let currentMultiplier = foldl (\<lambda>m f. m * layerMultiplier f) 1 (folds s)
      in case js_Array (min currentMultiplier (real (MAX_LAYERS fc))) of
           Inl e \<Rightarrow> (Threw e, s\<lparr>layers := []\<rparr>)
         | Inr k \<Rightarrow>
             (Returned (),
              s\<lparr>layers := map (\<lambda>i. \<lparr>index = i, opacity = 1 - real i * LAYER_OPACITY_STEP fc\<rparr>)
                              [0..<k]\<rparr>))"

definition applyFold ::
  "fold_config \<Rightarrow> shirt_config \<Rightarrow> (nat \<Rightarrow> real) \<Rightarrow> engine \<Rightarrow> fold_type \<Rightarrow> fold_params
     \<Rightarrow> bool outcome \<times> engine" where
  "applyFold fc sc rand s foldType params =
     (if MAX_LAYERS fc \<le> length (layers s) then (Returned False, s)
      else case createFold sc rand foldType params of
             None \<Rightarrow> (Returned False, s)
           | Some f \<Rightarrow>
               (case updateLayers fc (s\<lparr>folds := folds s @ [f]\<rparr>) of
                  (Threw e, s') \<Rightarrow> (Threw e, s')
                | (Returned u, s') \<Rightarrow> (Returned True, s')))"

definition undo :: "fold_config \<Rightarrow> engine \<Rightarrow> bool outcome \<times> engine" where
  "undo fc s =
     (if length (folds s) = 0 then (Returned False, s)
      else case updateLayers fc
                  (s\<lparr>folds := butlast (folds s), undoStack := undoStack s @ [last (folds s)]\<rparr>) of
             (Threw e, s') \<Rightarrow> (Threw e, s')
           | (Returned u, s') \<Rightarrow> (Returned True, s'))"

definition redo :: "fold_config \<Rightarrow> engine \<Rightarrow> bool outcome \<times> engine" where
  "redo fc s =
     (if length (undoStack s) = 0 then (Returned False, s)
      else case updateLayers fc
                  (s\<lparr>undoStack := butlast (undoStack s), folds := folds s @ [last (undoStack s)]\<rparr>) of
             (Threw e, s') \<Rightarrow> (Threw e, s')
           | (Returned u, s') \<Rightarrow> (Returned True, s'))"

definition clear :: "engine \<Rightarrow> engine" where
  "clear s = s\<lparr>folds := [], undoStack := [], layers := []\<rparr>"

definition getFolds :: "engine \<Rightarrow> fold list" where
  "getFolds s = folds s"

definition getLayers :: "engine \<Rightarrow> layer list" where
  "getLayers s = layers s"

text \<open>
  The states of an engine that a caller can produce: the state the constructor leaves,
  and the state after any call of \<open>applyFold\<close>, \<open>undo\<close>, \<open>redo\<close> or \<open>clear\<close> (whether it
  returned or threw).
\<close>

inductive reachable :: "fold_config \<Rightarrow> shirt_config \<Rightarrow> engine \<Rightarrow> bool"
  for fc :: fold_config and sc :: shirt_config where
    r_init: "reachable fc sc engine_init"
  | r_applyFold: "reachable fc sc s \<Longrightarrow> reachable fc sc (snd (applyFold fc sc rand s foldType params))"
  | r_undo: "reachable fc sc s \<Longrightarrow> reachable fc sc (snd (undo fc s))"
  | r_redo: "reachable fc sc s \<Longrightarrow> reachable fc sc (snd (redo fc s))"
  | r_clear: "reachable fc sc s \<Longrightarrow> reachable fc sc (clear s)"

section \<open>ColorManager.js\<close>

text \<open>
  A colour \<open>{r, g, b}\<close> (fields \<open>cr\<close>, \<open>cg\<close>, \<open>cb\<close> here) has integer channels: every
  colour of the program is a literal, a parsed hex string or the result of
  \<open>Math.round\<close> in \<open>cmyToRgb\<close>. A CMY triple \<open>{c, m, y}\<close> (fields \<open>cmy_c\<close>, \<open>cmy_m\<close>,
  \<open>cmy_y\<close>) has double components. Each division, subtraction, multiplication and
  addition yields the double nearest to its exact result. \<open>Math.round x\<close> is the
  integer \<open>\<lfloor>x + 1/2\<rfloor>\<close>, which is \<^const>\<open>round\<close>.
\<close>

record color =
  cr :: int
  cg :: int
  cb :: int

record cmy =
  cmy_c :: real
  cmy_m :: real
  cmy_y :: real

definition rgbToCmy :: "color \<Rightarrow> cmy" where
  "rgbToCmy rgb =
     \<lparr>cmy_c = fl (1 - fl (real_of_int (cr rgb) / 255)),
      cmy_m = fl (1 - fl (real_of_int (cg rgb) / 255)),
      cmy_y = fl (1 - fl (real_of_int (cb rgb) / 255))\<rparr>"

definition cmyToRgb :: "cmy \<Rightarrow> color" where
  "cmyToRgb v =
     \<lparr>cr = round (fl (fl (1 - cmy_c v) * 255)),
      cg = round (fl (fl (1 - cmy_m v) * 255)),
      cb = round (fl (fl (1 - cmy_y v) * 255))\<rparr>"

definition mixColors :: "color \<Rightarrow> color \<Rightarrow> real \<Rightarrow> color" where
  "mixColors color1 color2 ratio =
     (let cmy1 = rgbToCmy color1;
          cmy2 = rgbToCmy color2;
          mixedCmy =
            \<lparr>cmy_c = fl (fl (cmy_c cmy1 * fl (1 - ratio)) + fl (cmy_c cmy2 * ratio)),
             cmy_m = fl (fl (cmy_m cmy1 * fl (1 - ratio)) + fl (cmy_m cmy2 * ratio)),
             cmy_y = fl (fl (cmy_y cmy1 * fl (1 - ratio)) + fl (cmy_y cmy2 * ratio))\<rparr>
      in cmyToRgb mixedCmy)"

text \<open>
  \<open>blendLayers\<close> takes objects \<open>{color, intensity}\<close> (fields \<open>l_color\<close>, \<open>l_intensity\<close>).
  Its loop \<open>for (let i = 1; i < layers.length; i++)\<close> is \<open>blend_loop\<close>, started at
  \<open>i = 1\<close> with \<open>result = layers[0].color\<close>.
\<close>

record dye_layer =
  l_color :: color
  l_intensity :: real

definition white :: color where
  "white = \<lparr>cr = 255, cg = 255, cb = 255\<rparr>"

function blend_loop :: "dye_layer list \<Rightarrow> nat \<Rightarrow> color \<Rightarrow> color" where
  "blend_loop ls i result =
     (if i < length ls
      then blend_loop ls (Suc i) (mixColors result (l_color (ls ! i)) (l_intensity (ls ! i)))
      else result)"
  by pat_completeness auto
termination
  by (relation "measure (\<lambda>(ls, i, result). length ls - i)") auto

definition blendLayers :: "dye_layer list \<Rightarrow> color" where
  "blendLayers ls =
     (if length ls = 0 then white
      else if length ls = 1 then l_color (ls ! 0)
      else blend_loop ls 1 (l_color (ls ! 0)))"

section \<open>TShirtCanvas.js\<close>

text \<open>
  The garment geometry: rectangles \<open>{x, y, width, height}\<close> (fields \<open>rx\<close>, \<open>ry\<close>,
  \<open>rwidth\<close>, \<open>rheight\<close>) for the body and the two sleeves; the neckline is only
  drawn and is left out. A canvas layer is modelled
  by the list of discs drawn on it, in drawing order: a disc is one
  \<open>createRadialGradient(x, y, 0, x, y, radius)\<close> with its colour and its colour stops
  (offset, alpha), filled over \<open>arc(x, y, radius, 0, 2\<pi>)\<close>. \<open>clearRect\<close> over the whole
  layer empties the list.
\<close>

record rect =
  rx :: real
  ry :: real
  rwidth :: real
  rheight :: real

record shirtGeometry =
  body :: rect
  sleeves :: "rect list"

definition createShirtGeometry :: "shirt_config \<Rightarrow> shirtGeometry" where
  "createShirtGeometry sc =
     \<lparr>body = \<lparr>rx = CENTER_X sc - WIDTH sc / 2,
               ry = CENTER_Y sc - HEIGHT sc / 2 + 80,
               rwidth = WIDTH sc,
               rheight = HEIGHT sc - 80\<rparr>,
      sleeves = [\<lparr>rx = CENTER_X sc - WIDTH sc / 2,
                  ry = CENTER_Y sc - HEIGHT sc / 2 + 100,
                  rwidth = - 80,
                  rheight = 120\<rparr>,
                 \<lparr>rx = CENTER_X sc + WIDTH sc / 2,
                  ry = CENTER_Y sc - HEIGHT sc / 2 + 100,
                  rwidth = 80,
                  rheight = 120\<rparr>]\<rparr>"

definition isPointOnShirt :: "shirt_config \<Rightarrow> real \<Rightarrow> real \<Rightarrow> bool" where
  "isPointOnShirt sc px py =
     (let g = createShirtGeometry sc in
      if rx (body g) \<le> px \<and> px \<le> rx (body g) + rwidth (body g) \<and>
         ry (body g) \<le> py \<and> py \<le> ry (body g) + rheight (body g)
      then True
      else list_ex
             (\<lambda>sleeve.
                let sleeveRight = rx sleeve + rwidth sleeve;
                    sleeveBottom = ry sleeve + rheight sleeve
                in ((0 < rwidth sleeve \<and> rx sleeve \<le> px \<and> px \<le> sleeveRight) \<or>
                    (rwidth sleeve < 0 \<and> px \<le> rx sleeve \<and> sleeveRight \<le> px)) \<and>
                   ry sleeve \<le> py \<and> py \<le> sleeveBottom)
             (sleeves g))"

record disc =
  d_x :: real
  d_y :: real
  d_radius :: real
  d_color :: color
  d_stops :: "(real \<times> real) list"

section \<open>DyePhysics.js\<close>

text \<open>
  A dye point \<open>{x, y, color, intensity, radius, layerCount, timestamp}\<close> (the
  coordinates are \<open>dp_x\<close>, \<open>dp_y\<close> here). The state of a \<open>DyePhysics\<close> object: the
  recorded points, the stroke flag, the current brush size and intensity, and the
  content of the dye layer. The folding engine, the current colour of the colour
  manager, the time \<open>Date.now()\<close> and the random numbers are arguments.
\<close>

record dyePoint =
  dp_x :: real
  dp_y :: real
  color :: color
  intensity :: real
  radius :: real
  layerCount :: nat
  timestamp :: nat

record dyePhysics =
  dyePoints :: "dyePoint list"
  isApplying :: bool
  currentBrushSize :: real
  currentIntensity :: real
  dyeLayer :: "disc list"

definition dye_init :: "dye_config \<Rightarrow> dyePhysics" where
  "dye_init dc =
     \<lparr>dyePoints = [], isApplying = False, currentBrushSize = BRUSH_DEFAULT_SIZE dc,
      currentIntensity = DEFAULT_INTENSITY dc, dyeLayer = []\<rparr>"

definition setBrushSize :: "dye_config \<Rightarrow> dyePhysics \<Rightarrow> real \<Rightarrow> dyePhysics" where
  "setBrushSize dc s size' =
     s\<lparr>currentBrushSize := max (BRUSH_MIN_SIZE dc) (min size' (BRUSH_MAX_SIZE dc))\<rparr>"

definition setIntensity :: "dye_config \<Rightarrow> dyePhysics \<Rightarrow> real \<Rightarrow> dyePhysics" where
  "setIntensity dc s v =
     s\<lparr>currentIntensity := max (MIN_INTENSITY dc) (min v (MAX_INTENSITY dc))\<rparr>"

text \<open>
  \<open>renderDyePoint\<close>: the local \<open>effectiveIntensity\<close> is a function of the dye point.
\<close>

definition effectiveIntensity :: "dyePoint \<Rightarrow> real" where
  "effectiveIntensity p = intensity p / sqrt (real (layerCount p))"

definition renderDyePoint :: "disc list \<Rightarrow> dyePoint \<Rightarrow> disc list" where
  "renderDyePoint ctx p =
     (let alpha = (effectiveIntensity p / 100) * (8 / 10)
      in ctx @ [\<lparr>d_x = dp_x p, d_y = dp_y p, d_radius = radius p, d_color = color p,
                 d_stops = [(0, alpha), (7 / 10, alpha * (5 / 10)), (1, 0)]\<rparr>])"

text \<open>
  A bleed point \<open>{x, y, color}\<close> (fields \<open>b_x\<close>, \<open>b_y\<close>, \<open>b_color\<close>). Bleed point \<open>i\<close>
  of \<open>generateBleedPoints\<close> makes the \<open>i\<close>-th call of \<open>Math.random()\<close>.
\<close>

record bleedPoint =
  b_x :: real
  b_y :: real
  b_color :: color

definition generateBleedPoints :: "(nat \<Rightarrow> real) \<Rightarrow> dyePoint \<Rightarrow> real \<Rightarrow> bleedPoint list" where
  "generateBleedPoints rand centerPoint rad =
     map (\<lambda>i. let a = (real i / 8) * pi * 2;
                   distance = rad * (5 / 10 + rand i * (5 / 10))
               in \<lparr>b_x = dp_x centerPoint + cos a * distance,
                   b_y = dp_y centerPoint + sin a * distance,
                   b_color = color centerPoint\<rparr>)
         [0..<8]"

definition renderBleedPoint :: "real \<Rightarrow> disc list \<Rightarrow> bleedPoint \<Rightarrow> real \<Rightarrow> disc list" where
  "renderBleedPoint brush ctx p v =
     (let alpha = (v / 100) * (3 / 10);
          rad = brush * (5 / 10)
      in ctx @ [\<lparr>d_x = b_x p, d_y = b_y p, d_radius = rad, d_color = b_color p,
                 d_stops = [(0, alpha), (1, 0)]\<rparr>])"

definition simulateBleed ::
  "dye_config \<Rightarrow> (nat \<Rightarrow> real) \<Rightarrow> real \<Rightarrow> disc list \<Rightarrow> dyePoint \<Rightarrow> disc list" where
  "simulateBleed dc rand brush ctx p =
     (let bleedRadius = radius p * BLEED_RATE dc;
          bleedIntensity = intensity p * ABSORPTION_RATE dc
      in if bleedIntensity < 5 then ctx
         else foldl (\<lambda>c bp. renderBleedPoint brush c bp bleedIntensity) ctx
                (generateBleedPoints rand p bleedRadius))"

text \<open>
  \<open>applyDye\<close>: \<open>layerCount\<close> is \<open>Math.max(1, layers.length)\<close> of the engine's layers;
  the point is recorded, rendered, and bled. \<open>cur\<close> is the colour manager's current
  colour and \<open>now\<close> the value of \<open>Date.now()\<close>.
\<close>

definition applyDye ::
  "dye_config \<Rightarrow> engine \<Rightarrow> color \<Rightarrow> nat \<Rightarrow> (nat \<Rightarrow> real) \<Rightarrow> dyePhysics \<Rightarrow> real \<Rightarrow> real
     \<Rightarrow> dyePhysics" where
  "applyDye dc eng cur now rand s px py =
     (let layerCount = max 1 (length (getLayers eng));
          dyePoint = \<lparr>dp_x = px, dp_y = py, color = cur, intensity = currentIntensity s,
                      radius = currentBrushSize s, layerCount = layerCount, timestamp = now\<rparr>
      in s\<lparr>dyePoints := dyePoints s @ [dyePoint],
           dyeLayer := simulateBleed dc rand (currentBrushSize s)
                         (renderDyePoint (dyeLayer s) dyePoint) dyePoint\<rparr>)"

definition startApplying ::
  "dye_config \<Rightarrow> shirt_config \<Rightarrow> engine \<Rightarrow> color \<Rightarrow> nat \<Rightarrow> (nat \<Rightarrow> real) \<Rightarrow> dyePhysics
     \<Rightarrow> real \<Rightarrow> real \<Rightarrow> dyePhysics" where
  "startApplying dc sc eng cur now rand s px py =
     (if \<not> isPointOnShirt sc px py then s
      else applyDye dc eng cur now rand (s\<lparr>isApplying := True\<rparr>) px py)"

definition continueApplying ::
  "dye_config \<Rightarrow> shirt_config \<Rightarrow> engine \<Rightarrow> color \<Rightarrow> nat \<Rightarrow> (nat \<Rightarrow> real) \<Rightarrow> dyePhysics
     \<Rightarrow> real \<Rightarrow> real \<Rightarrow> dyePhysics" where
  "continueApplying dc sc eng cur now rand s px py =
     (if \<not> isApplying s \<or> \<not> isPointOnShirt sc px py then s
      else applyDye dc eng cur now rand s px py)"

definition stopApplying :: "dyePhysics \<Rightarrow> dyePhysics" where
  "stopApplying s = s\<lparr>isApplying := False\<rparr>"

definition dye_clear :: "dyePhysics \<Rightarrow> dyePhysics" where
  "dye_clear s = s\<lparr>dyePoints := [], dyeLayer := []\<rparr>"

text \<open>
  \<open>distance\<close> is imported from \<open>utils.js\<close>, which is not among the sources; it is the
  parameter \<open>distance\<close> of the two functions that call it.
\<close>

definition calculateIntensityAtPoint ::
  "(real \<Rightarrow> real \<Rightarrow> real \<Rightarrow> real \<Rightarrow> real) \<Rightarrow> real \<Rightarrow> real \<Rightarrow> dyePoint \<Rightarrow> real" where
  "calculateIntensityAtPoint distance qx qy p =
     (let d = distance qx qy (dp_x p) (dp_y p);
          normalizedDist = d / radius p
      in intensity p * max 0 (1 - normalizedDist))"

definition mixDyesAtPoint ::
  "(real \<Rightarrow> real \<Rightarrow> real \<Rightarrow> real \<Rightarrow> real) \<Rightarrow> dyePhysics \<Rightarrow> real \<Rightarrow> real \<Rightarrow> color" where
  "mixDyesAtPoint distance s qx qy =
     (let affectingDyes = filter (\<lambda>p. distance qx qy (dp_x p) (dp_y p) \<le> radius p) (dyePoints s)
      in if length affectingDyes = 0 then \<lparr>cr = 255, cg = 255, cb = 255\<rparr>
         else blendLayers
                (map (\<lambda>p. \<lparr>l_color = color p,
                            l_intensity = calculateIntensityAtPoint distance qx qy p\<rparr>)
                     affectingDyes))"

text \<open>
  The states of a \<open>DyePhysics\<close> object that a caller can produce. The engine, the
  current colour, the clock and the random numbers are arbitrary at every call.
\<close>

inductive dye_reachable :: "dye_config \<Rightarrow> shirt_config \<Rightarrow> dyePhysics \<Rightarrow> bool"
  for dc :: dye_config and sc :: shirt_config where
    d_init: "dye_reachable dc sc (dye_init dc)"
  | d_setBrushSize: "dye_reachable dc sc s \<Longrightarrow> dye_reachable dc sc (setBrushSize dc s v)"
  | d_setIntensity: "dye_reachable dc sc s \<Longrightarrow> dye_reachable dc sc (setIntensity dc s v)"
  | d_start: "dye_reachable dc sc s \<Longrightarrow>
        dye_reachable dc sc (startApplying dc sc eng cur now rand s px py)"
  | d_continue: "dye_reachable dc sc s \<Longrightarrow>
        dye_reachable dc sc (continueApplying dc sc eng cur now rand s px py)"
  | d_stop: "dye_reachable dc sc s \<Longrightarrow> dye_reachable dc sc (stopApplying s)"
  | d_clear: "dye_reachable dc sc s \<Longrightarrow> dye_reachable dc sc (dye_clear s)"

definition getDyePoints :: "dyePhysics \<Rightarrow> dyePoint list" where
  "getDyePoints s = dyePoints s"

section \<open>PatternGenerator.js\<close>

text \<open>
  The drawing context \<open>ctx\<close> of the final layer is the list of discs drawn so far;
  every rendering function returns the extended list. \<open>forEach\<close> over an array is a
  left fold over the list. The pacing delay of \<open>applyUnfoldTransform\<close> draws nothing
  and is left out.
\<close>

definition renderFinalPoint ::
  "disc list \<Rightarrow> real \<Rightarrow> real \<Rightarrow> color \<Rightarrow> real \<Rightarrow> real \<Rightarrow> disc list" where
  "renderFinalPoint ctx px py c v rad =
     (let alpha = (v / 100) * (6 / 10)
      in ctx @ [\<lparr>d_x = px, d_y = py, d_radius = rad, d_color = c,
                 d_stops = [(0, alpha), (7 / 10, alpha * (5 / 10)), (1, 0)]\<rparr>])"

definition mirrorPoint :: "real \<Rightarrow> real \<Rightarrow> line \<Rightarrow> string \<Rightarrow> point" where
  "mirrorPoint px py l dir =
     (if dir = ''horizontal''
      then (let dy = y1 l - py in \<lparr>pt_x = px, pt_y = y1 l + dy\<rparr>)
      else (let dx = x1 l - px in \<lparr>pt_x = x1 l + dx, pt_y = py\<rparr>))"

definition renderPointWithSymmetry ::
  "disc list \<Rightarrow> dyePoint \<Rightarrow> line list \<Rightarrow> string \<Rightarrow> disc list" where
  "renderPointWithSymmetry ctx p ls dir =
     foldl (\<lambda>c l. let mirrored = mirrorPoint (dp_x p) (dp_y p) l dir
                   in renderFinalPoint c (pt_x mirrored) (pt_y mirrored)
                        (color p) (intensity p) (radius p))
       (renderFinalPoint ctx (dp_x p) (dp_y p) (color p) (intensity p) (radius p))
       ls"

definition unfoldAccordion :: "disc list \<Rightarrow> fold \<Rightarrow> dyePoint list \<Rightarrow> disc list" where
  "unfoldAccordion ctx f pts =
     foldl (\<lambda>c p. renderPointWithSymmetry c p (lines f) (direction f)) ctx pts"

definition rotatePoint :: "real \<Rightarrow> real \<Rightarrow> real \<Rightarrow> real \<Rightarrow> real \<Rightarrow> point" where
  "rotatePoint px py cx cy a =
     (let dx = px - cx; dy = py - cy
      in \<lparr>pt_x = cx + dx * cos a - dy * sin a,
          pt_y = cy + dx * sin a + dy * cos a\<rparr>)"

text \<open>
  The loop \<open>for (let i = 0; i < rotations * 4; i++)\<close> of \<open>unfoldSpiral\<close> for one dye
  point: \<open>rot\<close>, \<open>cx\<close>, \<open>cy\<close> are the fold's \<open>rotations\<close>, \<open>centerX\<close>, \<open>centerY\<close>.
\<close>

function spiral_loop ::
  "real \<Rightarrow> real \<Rightarrow> real \<Rightarrow> dyePoint \<Rightarrow> nat \<Rightarrow> disc list \<Rightarrow> disc list" where
  "spiral_loop rot cx cy p i ctx =
     (if real i < rot * 4
      then spiral_loop rot cx cy p (Suc i)
             (renderFinalPoint ctx
                (pt_x (rotatePoint (dp_x p) (dp_y p) cx cy ((real i / (rot * 4)) * pi * 2)))
                (pt_y (rotatePoint (dp_x p) (dp_y p) cx cy ((real i / (rot * 4)) * pi * 2)))
                (color p) (intensity p) (radius p))
      else ctx)"
  by pat_completeness auto
termination
proof (relation "measure (\<lambda>(rot, cx, cy, p, i, ctx). nat (\<lceil>rot * 4\<rceil> - int i))")
  show "wf (measure (\<lambda>(rot, cx, cy, p, i, ctx). nat (\<lceil>rot * 4\<rceil> - int i)))"
    by simp
next
  fix rot cx cy :: real and p :: dyePoint and i :: nat and ctx :: "disc list"
  assume "real i < rot * 4"
  then have "int i < \<lceil>rot * 4\<rceil>"
    by (simp add: less_ceiling_iff)
  then show "((rot, cx, cy, p, Suc i,
        renderFinalPoint ctx
          (pt_x (rotatePoint (dp_x p) (dp_y p) cx cy ((real i / (rot * 4)) * pi * 2)))
          (pt_y (rotatePoint (dp_x p) (dp_y p) cx cy ((real i / (rot * 4)) * pi * 2)))
          (color p) (intensity p) (radius p)),
       (rot, cx, cy, p, i, ctx))
      \<in> measure (\<lambda>(rot, cx, cy, p, i, ctx). nat (\<lceil>rot * 4\<rceil> - int i))"
    by simp
qed

definition unfoldSpiral :: "disc list \<Rightarrow> fold \<Rightarrow> dyePoint list \<Rightarrow> disc list" where
  "unfoldSpiral ctx f pts =
     foldl (\<lambda>c p. spiral_loop (rotations f) (centerX f) (centerY f) p 0 c) ctx pts"

text \<open>
  \<open>generateCrumpleVariations\<close> draws two random numbers per crumple point, the \<open>x\<close>
  offset first. \<open>k\<close> counts the calls of \<open>Math.random()\<close> made so far in this unfold,
  and the function returns the new count. A variation is the dye point moved by the
  offset (the unfolder reads only its \<open>x\<close> and \<open>y\<close>).
\<close>

definition generateCrumpleVariations ::
  "(nat \<Rightarrow> real) \<Rightarrow> nat \<Rightarrow> dyePoint \<Rightarrow> point list \<Rightarrow> dyePoint list \<times> nat" where
  "generateCrumpleVariations rand k p crumplePoints =
     foldl (\<lambda>(variations, j) cp.
              (variations @
                 [p\<lparr>dp_x := dp_x p + (rand j - 5 / 10) * 40,
                    dp_y := dp_y p + (rand (Suc j) - 5 / 10) * 40\<rparr>],
               j + 2))
       ([p], k) crumplePoints"

definition unfoldCrumple ::
  "(nat \<Rightarrow> real) \<Rightarrow> disc list \<times> nat \<Rightarrow> fold \<Rightarrow> dyePoint list \<Rightarrow> disc list \<times> nat" where
  "unfoldCrumple rand st f pts =
     foldl (\<lambda>(c, k) p.
              let (variations, k') = generateCrumpleVariations rand k p (points f)
              in (foldl (\<lambda>c' varied.
                           renderFinalPoint c' (dp_x varied) (dp_y varied) (color p)
                             (intensity p * (7 / 10)) (radius p))
                    c variations,
                  k'))
       st pts"

definition mirrorDiagonal :: "real \<Rightarrow> real \<Rightarrow> real \<Rightarrow> real \<Rightarrow> real \<Rightarrow> point" where
  "mirrorDiagonal px py cx cy ang =
     (let rad = (ang * pi) / 180;
          dx = px - cx;
          dy = py - cy;
          cos2 = cos (2 * rad);
          sin2 = sin (2 * rad)
      in \<lparr>pt_x = cx + dx * cos2 + dy * sin2,
          pt_y = cy + dx * sin2 - dy * cos2\<rparr>)"

definition unfoldDiagonal ::
  "shirt_config \<Rightarrow> disc list \<Rightarrow> fold \<Rightarrow> dyePoint list \<Rightarrow> disc list" where
  "unfoldDiagonal sc ctx f pts =
     foldl (\<lambda>c p.
              let mirrored = mirrorDiagonal (dp_x p) (dp_y p) (CENTER_X sc) (CENTER_Y sc) (angle f)
              in renderFinalPoint
                   (renderFinalPoint c (dp_x p) (dp_y p) (color p) (intensity p) (radius p))
                   (pt_x mirrored) (pt_y mirrored) (color p) (intensity p) (radius p))
       ctx pts"

fun applyUnfoldTransform ::
  "shirt_config \<Rightarrow> (nat \<Rightarrow> real) \<Rightarrow> disc list \<times> nat \<Rightarrow> fold \<Rightarrow> dyePoint list
     \<Rightarrow> disc list \<times> nat" where
  "applyUnfoldTransform sc rand (ctx, k) (Accordion dir n ls m) pts =
     (unfoldAccordion ctx (Accordion dir n ls m) pts, k)"
| "applyUnfoldTransform sc rand (ctx, k) (Spiral cx cy rot m) pts =
     (unfoldSpiral ctx (Spiral cx cy rot m) pts, k)"
| "applyUnfoldTransform sc rand (ctx, k) (Crumple cps m) pts =
     unfoldCrumple rand (ctx, k) (Crumple cps m) pts"
| "applyUnfoldTransform sc rand (ctx, k) (Diagonal ang m) pts =
     (unfoldDiagonal sc ctx (Diagonal ang m) pts, k)"

text \<open>
  \<open>unfoldPattern\<close>: the final layer is cleared, then
  \<open>for (let i = folds.length - 1; i >= 0; i--)\<close> applies the transform of \<open>folds[i]\<close>
  to \<open>dyePoints\<close>. In \<open>unfold_loop\<close> the counter is \<open>i + 1\<close>.
\<close>

primrec unfold_loop ::
  "shirt_config \<Rightarrow> (nat \<Rightarrow> real) \<Rightarrow> fold list \<Rightarrow> dyePoint list \<Rightarrow> nat \<Rightarrow> disc list \<times> nat
     \<Rightarrow> disc list \<times> nat" where
  "unfold_loop sc rand fs pts 0 st = st"
| "unfold_loop sc rand fs pts (Suc i) st =
     unfold_loop sc rand fs pts i (applyUnfoldTransform sc rand st (fs ! i) pts)"

definition unfoldPattern ::
  "shirt_config \<Rightarrow> (nat \<Rightarrow> real) \<Rightarrow> fold list \<Rightarrow> dyePoint list \<Rightarrow> disc list" where
  "unfoldPattern sc rand fs pts = fst (unfold_loop sc rand fs pts (length fs) ([], 0))"

definition copyDyeToFinal :: "dyePhysics \<Rightarrow> disc list" where
  "copyDyeToFinal dye = dyeLayer dye"

definition generatePattern ::
  "shirt_config \<Rightarrow> (nat \<Rightarrow> real) \<Rightarrow> engine \<Rightarrow> dyePhysics \<Rightarrow> disc list" where
  "generatePattern sc rand eng dye =
     (let fs = getFolds eng;
          pts = getDyePoints dye
      in if length fs = 0 then copyDyeToFinal dye
         else unfoldPattern sc rand fs pts)"

section \<open>Auxiliary definitions\<close>

text \<open>
  The layers that \<open>updateLayers\<close> leaves for a fold stack: they depend on the stack
  and on \<open>FOLD_CONFIG\<close> only.
\<close>

definition derive :: "fold_config \<Rightarrow> fold list \<Rightarrow> layer list" where
  "derive fc fs = layers (snd (updateLayers fc \<lparr>folds = fs, undoStack = [], layers = []\<rparr>))"

text \<open>
  One instance of the configuration, used to evaluate the operations on concrete
  inputs, and the empty \<open>params\<close> object \<open>{}\<close>.
\<close>

definition demo_fc :: fold_config where
  "demo_fc = \<lparr>MAX_LAYERS = 8, LAYER_OPACITY_STEP = 1 / 10\<rparr>"

definition demo_sc :: shirt_config where
  "demo_sc = \<lparr>CENTER_X = 400, CENTER_Y = 300, WIDTH = 300, HEIGHT = 400\<rparr>"

definition empty_params :: fold_params where
  "empty_params = \<lparr>p_direction = None, p_numFolds = None, p_centerX = None, p_centerY = None,
     p_rotations = None, p_points = None, p_angle = None\<rparr>"

definition demo_dc :: dye_config where
  "demo_dc = \<lparr>BRUSH_MIN_SIZE = 5, BRUSH_MAX_SIZE = 100, BRUSH_DEFAULT_SIZE = 20,
     MIN_INTENSITY = 10, MAX_INTENSITY = 100, DEFAULT_INTENSITY = 70,
     BLEED_RATE = 3 / 2, ABSORPTION_RATE = 8 / 10\<rparr>"

definition red :: color where
  "red = \<lparr>cr = 255, cg = 0, cb = 0\<rparr>"

definition blue :: color where
  "blue = \<lparr>cr = 0, cg = 0, cb = 255\<rparr>"

text \<open>
  The Euclidean distance, as an instance of the parameter \<open>distance\<close> for evaluating
  \<open>mixDyesAtPoint\<close> on concrete inputs.
\<close>

definition euclid :: "real \<Rightarrow> real \<Rightarrow> real \<Rightarrow> real \<Rightarrow> real" where
  "euclid ux uy vx vy = sqrt ((vx - ux)\<^sup>2 + (vy - uy)\<^sup>2)"



definition demo_folds :: "fold list" where
  "demo_folds =
     [createAccordionFold demo_sc empty_params, createDiagonalFold demo_sc empty_params]"

definition demo_point :: dyePoint where
  "demo_point = \<lparr>dp_x = 420, dp_y = 310, color = red, intensity = 80, radius = 30,
                  layerCount = 6, timestamp = 0\<rparr>"

definition demo_engine :: engine where
  "demo_engine =
     snd (applyFold demo_fc demo_sc (\<lambda>k. 0)
            (snd (applyFold demo_fc demo_sc (\<lambda>k. 0) engine_init ACCORDION empty_params))
            DIAGONAL empty_params)"

definition demo_dye :: dyePhysics where
  "demo_dye =
     startApplying demo_dc demo_sc demo_engine red 0 (\<lambda>k. 0)
       (setBrushSize demo_dc (setIntensity demo_dc (dye_init demo_dc) 80) 30) 420 310"

text \<open>
  An RGB colour: every channel lies in \<open>[0, 255]\<close>.
\<close>

definition rgb :: "color \<Rightarrow> bool" where
  "rgb c \<longleftrightarrow> 0 \<le> cr c \<and> cr c \<le> 255 \<and> 0 \<le> cg c \<and> cg c \<le> 255 \<and> 0 \<le> cb c \<and> cb c \<le> 255"

text \<open>
  For the error analysis of \<open>mixColors\<close>: \<open>near e x' x\<close> says that the computed \<open>x'\<close> is
  within \<open>e\<close> of the exact \<open>x\<close>, and \<open>mix_channel\<close> is the double that \<open>mixColors\<close>
  passes to \<open>Math.round\<close> for one channel, as a function of the two channel values
  and the ratio.
\<close>

definition near :: "real \<Rightarrow> real \<Rightarrow> real \<Rightarrow> bool" where
  "near e x' x \<longleftrightarrow> \<bar>x' - x\<bar> \<le> e"

definition mix_channel :: "real \<Rightarrow> real \<Rightarrow> real \<Rightarrow> real" where
  "mix_channel ra rb t =
     fl (fl (1 - fl (fl (fl (1 - fl (ra / 255)) * fl (1 - t)) + fl (fl (1 - fl (rb / 255)) * t)))
         * 255)"

section \<open>Definitions that follow the specification\<close>

subsection \<open>Point-query blending\<close>







subsection \<open>Unfolding\<close>

text \<open>
  The disc that \<open>renderFinalPoint\<close> draws for a point, and the specification's
  family rules as a function from a point to its rendered copies: an accordion fold
  gives the point and its mirror image across each crease line; a spiral fold gives the
  \<open>rotations \<times> 4\<close> rotated copies; a crumple fold gives the point and one randomly
  offset copy per anchor point, all at intensity \<open>\<times> 0.7\<close>; a diagonal fold gives the
  point and its reflection. \<open>k\<close> is the number of random numbers drawn before, and
  \<open>spec_draws\<close> the number a fold draws per point.
\<close>

definition final_disc :: "dyePoint \<Rightarrow> disc" where
  "final_disc p =
     \<lparr>d_x = dp_x p, d_y = dp_y p, d_radius = radius p, d_color = color p,
      d_stops = [(0, (intensity p / 100) * (6 / 10)),
                 (7 / 10, (intensity p / 100) * (6 / 10) * (5 / 10)), (1, 0)]\<rparr>"

fun spec_copies ::
  "shirt_config \<Rightarrow> (nat \<Rightarrow> real) \<Rightarrow> nat \<Rightarrow> fold \<Rightarrow> dyePoint \<Rightarrow> dyePoint list" where
  "spec_copies sc rand k (Accordion dir n ls m) p =
     p # map (\<lambda>l. p\<lparr>dp_x := pt_x (mirrorPoint (dp_x p) (dp_y p) l dir),
                      dp_y := pt_y (mirrorPoint (dp_x p) (dp_y p) l dir)\<rparr>) ls"
| "spec_copies sc rand k (Spiral cx cy rot m) p =
     map (\<lambda>i. p\<lparr>dp_x := pt_x (rotatePoint (dp_x p) (dp_y p) cx cy
                                   ((real i / (rot * 4)) * pi * 2)),
                  dp_y := pt_y (rotatePoint (dp_x p) (dp_y p) cx cy
                                   ((real i / (rot * 4)) * pi * 2))\<rparr>)
       [0..<nat \<lceil>rot * 4\<rceil>]"
| "spec_copies sc rand k (Crumple cps m) p =
     map (\<lambda>q. q\<lparr>intensity := intensity p * (7 / 10)\<rparr>)
       (p # map (\<lambda>j. p\<lparr>dp_x := dp_x p + (rand (k + 2 * j) - 5 / 10) * 40,
                         dp_y := dp_y p + (rand (Suc (k + 2 * j)) - 5 / 10) * 40\<rparr>)
              [0..<length cps])"
| "spec_copies sc rand k (Diagonal ang m) p =
     [p, p\<lparr>dp_x := pt_x (mirrorDiagonal (dp_x p) (dp_y p) (CENTER_X sc) (CENTER_Y sc) ang),
           dp_y := pt_y (mirrorDiagonal (dp_x p) (dp_y p) (CENTER_X sc) (CENTER_Y sc) ang)\<rparr>]"

fun spec_draws :: "fold \<Rightarrow> nat" where
  "spec_draws (Crumple cps m) = 2 * length cps"
| "spec_draws (Accordion dir n ls m) = 0"
| "spec_draws (Spiral cx cy rot m) = 0"
| "spec_draws (Diagonal ang m) = 0"

fun spec_copies_all ::
  "shirt_config \<Rightarrow> (nat \<Rightarrow> real) \<Rightarrow> nat \<Rightarrow> fold \<Rightarrow> dyePoint list \<Rightarrow> dyePoint list" where
  "spec_copies_all sc rand k f [] = []"
| "spec_copies_all sc rand k f (p # ps) =
     spec_copies sc rand k f p @ spec_copies_all sc rand (k + spec_draws f) f ps"

text \<open>
  The specification's unfolder, for the folds in processing order: each fold
  transforms and renders the point set accumulated so far, which starts as the recorded
  dye points and is replaced by the copies just rendered.
\<close>

fun spec_unfold_accumulating ::
  "shirt_config \<Rightarrow> (nat \<Rightarrow> real) \<Rightarrow> nat \<Rightarrow> fold list \<Rightarrow> dyePoint list \<Rightarrow> disc list" where
  "spec_unfold_accumulating sc rand k [] acc = []"
| "spec_unfold_accumulating sc rand k (f # fs) acc =
     map final_disc (spec_copies_all sc rand k f acc)
       @ spec_unfold_accumulating sc rand (k + length acc * spec_draws f) fs
           (spec_copies_all sc rand k f acc)"

text \<open>
  The unfolder in which every fold transforms and renders the recorded dye points
  themselves: the set of points never grows.
\<close>

fun unfold_original_points ::
  "shirt_config \<Rightarrow> (nat \<Rightarrow> real) \<Rightarrow> nat \<Rightarrow> fold list \<Rightarrow> dyePoint list \<Rightarrow> disc list" where
  "unfold_original_points sc rand k [] pts = []"
| "unfold_original_points sc rand k (f # fs) pts =
     map final_disc (spec_copies_all sc rand k f pts)
       @ unfold_original_points sc rand (k + length pts * spec_draws f) fs pts"

section \<open>Properties of the fold stack\<close>

declare accordion_loop.simps [simp del]

lemma updateLayers_state:
  "snd (updateLayers fc s) = s\<lparr>layers := derive fc (folds s)\<rparr>"
  by (simp add: updateLayers_def derive_def Let_def split: sum.splits)

lemma applyFold_state:
  "snd (applyFold fc sc rand s ty ps) = s \<or>
   (\<exists>f. snd (applyFold fc sc rand s ty ps) =
      s\<lparr>folds := folds s @ [f], layers := derive fc (folds s @ [f])\<rparr>)"
  apply (simp add: applyFold_def split: option.splits prod.splits outcome.splits)
  apply (auto dest!: arg_cong[where f=snd] simp: updateLayers_state)
  done

lemma undo_state:
  "snd (undo fc s) = (if folds s = [] then s else
     s\<lparr>folds := butlast (folds s), undoStack := undoStack s @ [last (folds s)],
       layers := derive fc (butlast (folds s))\<rparr>)"
  apply (simp add: undo_def split: option.splits prod.splits outcome.splits)
  apply (auto dest!: arg_cong[where f=snd] simp: updateLayers_state)
  done

lemma redo_state:
  "snd (redo fc s) = (if undoStack s = [] then s else
     s\<lparr>undoStack := butlast (undoStack s), folds := folds s @ [last (undoStack s)],
       layers := derive fc (folds s @ [last (undoStack s)])\<rparr>)"
  apply (simp add: redo_def split: option.splits prod.splits outcome.splits)
  apply (auto dest!: arg_cong[where f=snd] simp: updateLayers_state)
  done

text \<open>
  The constructor and \<open>clear\<close> leave the same state, with stack, redo buffer and
  layers all empty. In every other reachable state the layers are those that
  \<open>updateLayers\<close> derives from the stack.
\<close>

lemma clear_engine_init: "clear s = engine_init"
  by (simp add: clear_def engine_init_def)

lemma reachable_layers:
  "reachable fc sc s \<Longrightarrow> s = engine_init \<or> layers s = derive fc (folds s)"
proof (induction rule: reachable.induct)
  case r_init
  then show ?case by simp
next
  case (r_applyFold s rand foldType params)
  then show ?case using applyFold_state[of fc sc rand s foldType params] by auto
next
  case (r_undo s)
  then show ?case by (auto simp: undo_state)
next
  case (r_redo s)
  then show ?case by (auto simp: redo_state)
next
  case (r_clear s)
  then show ?case by (simp add: clear_engine_init)
qed

lemma foldl_mult_prod:
  "foldl (\<lambda>m f. m * layerMultiplier f) a fs = a * prod_list (map layerMultiplier fs)"
  by (induction fs arbitrary: a) (simp_all add: mult.assoc)

lemma prod_nat_multipliers:
  "\<forall>f\<in>set fs. \<exists>k\<ge>1. layerMultiplier f = real k \<Longrightarrow>
   \<exists>k\<ge>1. prod_list (map layerMultiplier fs) = real (k::nat)"
proof (induction fs)
  case Nil
  show ?case by (rule exI[of _ 1]) simp
next
  case (Cons f fs)
  then obtain k where k: "k \<ge> 1" "prod_list (map layerMultiplier fs) = real k" by auto
  from Cons.prems obtain j where j: "j \<ge> 1" "layerMultiplier f = real j" by auto
  show ?case
    by (rule exI[of _ "j * k"]) (use j k in simp)
qed

lemma js_Array_nat: "n < 2 ^ 32 \<Longrightarrow> js_Array (real n) = Inr n"
  by (simp add: js_Array_def)

lemma derive_length:
  assumes "\<forall>f\<in>set fs. \<exists>k\<ge>1. layerMultiplier f = real k"
    and "1 \<le> MAX_LAYERS fc" and "MAX_LAYERS fc < 2 ^ 32"
  shows "1 \<le> length (derive fc fs)"
    and "real (length (derive fc fs)) =
           min (prod_list (map layerMultiplier fs)) (real (MAX_LAYERS fc))"
proof -
  from prod_nat_multipliers[OF assms(1)] obtain k where
    k: "k \<ge> 1" "prod_list (map layerMultiplier fs) = real k" by auto
  have m: "min (real k) (real (MAX_LAYERS fc)) = real (min k (MAX_LAYERS fc))" by simp
  have lt: "min k (MAX_LAYERS fc) < 2 ^ 32" using assms(3) by simp
  have "length (derive fc fs) = min k (MAX_LAYERS fc)"
    unfolding derive_def updateLayers_def Let_def
    by (simp add: foldl_mult_prod k m js_Array_nat[OF lt] del: of_nat_min)
  then show "1 \<le> length (derive fc fs)"
    and "real (length (derive fc fs)) =
           min (prod_list (map layerMultiplier fs)) (real (MAX_LAYERS fc))"
    using k assms(2) by simp_all
qed

text \<open>
  The default diagonal fold applied to a fresh engine, under the demonstration
  configuration: the stack holds one fold of multiplier 2 and there are two layers.
\<close>

lemma applyFold_diagonal_demo:
  "snd (applyFold demo_fc demo_sc rand engine_init DIAGONAL empty_params) =
     \<lparr>folds = [Diagonal 45 2], undoStack = [],
      layers = [\<lparr>index = 0, opacity = 1\<rparr>, \<lparr>index = 1, opacity = 9 / 10\<rparr>]\<rparr>"
  by (simp add: applyFold_def engine_init_def createDiagonalFold_def or_num_def empty_params_def
      updateLayers_def js_Array_def demo_fc_def Let_def upt_rec)

lemma reachable_diagonal_demo:
  "reachable demo_fc demo_sc
     \<lparr>folds = [Diagonal 45 2], undoStack = [],
      layers = [\<lparr>index = 0, opacity = 1\<rparr>, \<lparr>index = 1, opacity = 9 / 10\<rparr>]\<rparr>"
  using r_applyFold[OF r_init, of demo_fc demo_sc "\<lambda>k. 0" DIAGONAL empty_params]
  by (simp add: applyFold_diagonal_demo)

text \<open>
  The diagonal fold undone: the stack is empty again, the fold waits in the redo
  buffer, and \<open>updateLayers\<close> has left one layer.
\<close>

lemma undo_diagonal_demo:
  "snd (undo demo_fc
     \<lparr>folds = [Diagonal 45 2], undoStack = [],
      layers = [\<lparr>index = 0, opacity = 1\<rparr>, \<lparr>index = 1, opacity = 9 / 10\<rparr>]\<rparr>) =
     \<lparr>folds = [], undoStack = [Diagonal 45 2], layers = [\<lparr>index = 0, opacity = 1\<rparr>]\<rparr>"
  by (simp add: undo_def updateLayers_def js_Array_def demo_fc_def Let_def upt_rec)

lemma reachable_undone_demo:
  "reachable demo_fc demo_sc
     \<lparr>folds = [], undoStack = [Diagonal 45 2], layers = [\<lparr>index = 0, opacity = 1\<rparr>]\<rparr>"
  using r_undo[OF reachable_diagonal_demo] by (simp only: undo_diagonal_demo)

text \<open>
  Claim C1, as amended. For every state reachable by \<open>applyFold\<close>, \<open>undo\<close>, \<open>redo\<close> and
  \<open>clear\<close> in which every fold of the stack has an integer \<open>layerMultiplier\<close> of at
  least 1 (with \<open>1 \<le> MAX_LAYERS < 2^32\<close>): in the state left by the constructor and by
  \<open>clear\<close> (stack, redo buffer and layers all empty) there are 0 layers; in every other
  reachable state the number of layers is at least 1 and equals the product of the
  multipliers, clamped to \<open>MAX_LAYERS\<close>, so an empty stack reached by \<open>undo\<close> has
  exactly 1 layer. In every reachable state \<open>max(1, layers.length)\<close>, the count that the
  dye model records, is at least 1 and equals the clamped product.
\<close>

theorem layer_count_reachable:
  assumes "reachable fc sc s" and "1 \<le> MAX_LAYERS fc" and "MAX_LAYERS fc < 2 ^ 32"
    and "\<forall>f\<in>set (folds s). \<exists>k\<ge>1. layerMultiplier f = real k"
  shows "(if s = engine_init then length (getLayers s) = 0
          else 1 \<le> length (getLayers s) \<and>
               real (length (getLayers s)) =
                 min (prod_list (map layerMultiplier (folds s))) (real (MAX_LAYERS fc))) \<and>
         (s \<noteq> engine_init \<and> folds s = [] \<longrightarrow> length (getLayers s) = 1) \<and>
         1 \<le> max 1 (length (getLayers s)) \<and>
         real (max 1 (length (getLayers s))) =
           min (prod_list (map layerMultiplier (folds s))) (real (MAX_LAYERS fc))"
proof (cases "s = engine_init")
  case True
  then show ?thesis
    using assms(2) by (simp add: getLayers_def engine_init_def)
next
  case False
  with reachable_layers[OF assms(1)] have l: "layers s = derive fc (folds s)"
    by simp
  note d = derive_length[OF assms(4) assms(2) assms(3)]
  have one: "folds s = [] \<Longrightarrow> length (derive fc (folds s)) = 1"
    using d(2) assms(2) by simp
  from False l d one show ?thesis
    by (simp add: getLayers_def max_def)
qed

theorem layer_count_reachable_witness:
  "reachable demo_fc demo_sc
     \<lparr>folds = [], undoStack = [Diagonal 45 2], layers = [\<lparr>index = 0, opacity = 1\<rparr>]\<rparr> \<and>
   \<lparr>folds = [], undoStack = [Diagonal 45 2], layers = [\<lparr>index = 0, opacity = 1\<rparr>]\<rparr>
     \<noteq> engine_init \<and>
   length (getLayers
     \<lparr>folds = [], undoStack = [Diagonal 45 2], layers = [\<lparr>index = 0, opacity = 1\<rparr>]\<rparr>) = 1 \<and>
   min (prod_list (map layerMultiplier [])) (real (MAX_LAYERS demo_fc)) = 1 \<and>
   reachable demo_fc demo_sc
     \<lparr>folds = [Diagonal 45 2], undoStack = [],
      layers = [\<lparr>index = 0, opacity = 1\<rparr>, \<lparr>index = 1, opacity = 9 / 10\<rparr>]\<rparr> \<and>
   length (getLayers \<lparr>folds = [Diagonal 45 2], undoStack = [],
      layers = [\<lparr>index = 0, opacity = 1\<rparr>, \<lparr>index = 1, opacity = 9 / 10\<rparr>]\<rparr>) = 2 \<and>
   min (prod_list (map layerMultiplier [Diagonal 45 2])) (real (MAX_LAYERS demo_fc)) = 2"
proof -
  let ?u = "\<lparr>folds = [], undoStack = [Diagonal 45 2], layers = [\<lparr>index = 0, opacity = 1\<rparr>]\<rparr>"
  let ?s = "\<lparr>folds = [Diagonal 45 2], undoStack = [],
      layers = [\<lparr>index = 0, opacity = 1\<rparr>, \<lparr>index = 1, opacity = 9 / 10\<rparr>]\<rparr>"
  have ru: "reachable demo_fc demo_sc ?u"
    by (rule reachable_undone_demo)
  have r: "reachable demo_fc demo_sc ?s"
    by (rule reachable_diagonal_demo)
  have m: "1 \<le> MAX_LAYERS demo_fc" "MAX_LAYERS demo_fc < 2 ^ 32"
    by (simp_all add: demo_fc_def)
  have ku: "\<forall>f\<in>set (folds ?u). \<exists>k\<ge>1. layerMultiplier f = real k"
    by simp
  have k: "\<forall>f\<in>set (folds ?s). \<exists>k\<ge>1. layerMultiplier f = real k"
    by (simp add: exI[of _ 2])
  from layer_count_reachable[OF ru m ku] layer_count_reachable[OF r m k] ru r show ?thesis
    by (simp add: getLayers_def demo_fc_def engine_init_def)
qed

text \<open>
  Claim C1 as stated fails in the state the constructor leaves and in the state
  \<open>clear\<close> leaves: both are reachable, the layers are empty there, so the layer count
  is 0, while the clamped product of the (empty) stack is 1.
\<close>

theorem layer_count_fresh_counterexample:
  "reachable demo_fc demo_sc engine_init \<and> length (getLayers engine_init) = 0 \<and>
   min (prod_list (map layerMultiplier (folds engine_init))) (real (MAX_LAYERS demo_fc)) = 1 \<and>
   reachable demo_fc demo_sc
     (clear (snd (applyFold demo_fc demo_sc (\<lambda>k. 0) engine_init DIAGONAL empty_params))) \<and>
   length (getLayers
     (clear (snd (applyFold demo_fc demo_sc (\<lambda>k. 0) engine_init DIAGONAL empty_params)))) = 0"
proof -
  have "reachable demo_fc demo_sc engine_init"
    by (rule r_init)
  moreover have "reachable demo_fc demo_sc
     (clear (snd (applyFold demo_fc demo_sc (\<lambda>k. 0) engine_init DIAGONAL empty_params)))"
    by (rule r_clear[OF r_applyFold[OF r_init]])
  moreover have "length (getLayers engine_init) = 0"
    by (simp add: getLayers_def engine_init_def)
  moreover have "min (prod_list (map layerMultiplier (folds engine_init)))
      (real (MAX_LAYERS demo_fc)) = 1"
    by (simp add: engine_init_def demo_fc_def)
  moreover have "length (getLayers
     (clear (snd (applyFold demo_fc demo_sc (\<lambda>k. 0) engine_init DIAGONAL empty_params)))) = 0"
    by (simp add: getLayers_def clear_def)
  ultimately show ?thesis by blast
qed

text \<open>
  Claim C6. In every reachable state with at least one fold, \<open>undo\<close> followed by
  \<open>redo\<close> leaves the engine in exactly the state it started from: the same folds in
  the same order, the same layers and the same redo buffer. Neither call is the
  rejected no-op that returns \<open>false\<close>.
\<close>

theorem undo_redo_restores:
  assumes "reachable fc sc s" and "folds s \<noteq> []"
  shows "snd (redo fc (snd (undo fc s))) = s \<and>
         fst (undo fc s) \<noteq> Returned False \<and>
         fst (redo fc (snd (undo fc s))) \<noteq> Returned False"
proof -
  from reachable_layers[OF assms(1)] assms(2) have "layers s = derive fc (folds s)"
    by (auto simp: engine_init_def)
  then have "snd (redo fc (snd (undo fc s))) = s"
    using assms(2) by (simp add: undo_state redo_state)
  moreover have "fst (undo fc s) \<noteq> Returned False"
    using assms(2) by (simp add: undo_def split: prod.splits outcome.splits)
  moreover have "undoStack (snd (undo fc s)) \<noteq> []"
    using assms(2) by (simp add: undo_state)
  then have "fst (redo fc (snd (undo fc s))) \<noteq> Returned False"
    by (simp add: redo_def split: prod.splits outcome.splits)
  ultimately show ?thesis by blast
qed

theorem undo_redo_restores_witness:
  "snd (redo demo_fc (snd (undo demo_fc
      \<lparr>folds = [Diagonal 45 2], undoStack = [],
       layers = [\<lparr>index = 0, opacity = 1\<rparr>, \<lparr>index = 1, opacity = 9 / 10\<rparr>]\<rparr>))) =
     \<lparr>folds = [Diagonal 45 2], undoStack = [],
      layers = [\<lparr>index = 0, opacity = 1\<rparr>, \<lparr>index = 1, opacity = 9 / 10\<rparr>]\<rparr>"
  using undo_redo_restores[OF reachable_diagonal_demo] by simp

text \<open>
  Claim C7. \<open>applyFold\<close> never changes the redo buffer: whether the call is rejected
  (layer cap reached, unknown fold type), succeeds, or throws in \<open>updateLayers\<close>, the
  \<open>undoStack\<close> afterwards is the \<open>undoStack\<close> before. A fold pushed there by \<open>undo\<close>
  is therefore still there after a new \<open>applyFold\<close>. The buffer grows only in \<open>undo\<close>,
  by the fold popped from the stack, and \<open>redo\<close> removes its last entry.
\<close>

theorem applyFold_keeps_undoStack:
  "undoStack (snd (applyFold fc sc rand s foldType params)) = undoStack s \<and>
   undoStack (snd (undo fc s)) =
     (if folds s = [] then undoStack s else undoStack s @ [last (folds s)]) \<and>
   undoStack (snd (redo fc s)) = butlast (undoStack s)"
proof -
  have "undoStack (snd (applyFold fc sc rand s foldType params)) = undoStack s"
    using applyFold_state[of fc sc rand s foldType params] by auto
  then show ?thesis
    by (simp add: undo_state redo_state)
qed

theorem applyFold_keeps_undoStack_witness:
  "undoStack (snd (undo demo_fc \<lparr>folds = [Diagonal 45 2], undoStack = [],
        layers = [\<lparr>index = 0, opacity = 1\<rparr>, \<lparr>index = 1, opacity = 9 / 10\<rparr>]\<rparr>))
     = [Diagonal 45 2] \<and>
   undoStack (snd (applyFold demo_fc demo_sc (\<lambda>k. 0)
       (snd (undo demo_fc \<lparr>folds = [Diagonal 45 2], undoStack = [],
        layers = [\<lparr>index = 0, opacity = 1\<rparr>, \<lparr>index = 1, opacity = 9 / 10\<rparr>]\<rparr>))
       DIAGONAL empty_params))
     = [Diagonal 45 2]"
  using applyFold_keeps_undoStack[of demo_fc demo_sc "\<lambda>k. 0"
      "snd (undo demo_fc \<lparr>folds = [Diagonal 45 2], undoStack = [],
        layers = [\<lparr>index = 0, opacity = 1\<rparr>, \<lparr>index = 1, opacity = 9 / 10\<rparr>]\<rparr>)"
      DIAGONAL empty_params]
  by (simp add: undo_state)

subsection \<open>Accordion crease lines\<close>

text \<open>
  For an integer bound \<open>n\<close> the loop of \<open>calculateAccordionLines\<close> pushes the lines
  \<open>mk i\<close> for \<open>i = 1, \<dots>, n\<close>.
\<close>

lemma accordion_loop_nat:
  "i \<le> Suc n \<Longrightarrow> accordion_loop mk (real n) i acc = acc @ map mk [i..<Suc n]"
proof (induction "Suc n - i" arbitrary: i acc)
  case 0
  then have "i = Suc n" by simp
  then show ?case
    by (subst accordion_loop.simps) simp
next
  case (Suc d)
  then have lt: "i < Suc n" and le: "Suc i \<le> Suc n" and d: "d = Suc n - Suc i"
    by simp_all
  have "accordion_loop mk (real n) i acc = accordion_loop mk (real n) (Suc i) (acc @ [mk i])"
    using lt by (subst accordion_loop.simps) simp
  also have "\<dots> = (acc @ [mk i]) @ map mk [Suc i..<Suc n]"
    by (rule Suc.hyps(1)[OF d le])
  also have "\<dots> = acc @ map mk [i..<Suc n]"
    using lt by (simp add: upt_conv_Cons del: upt_Suc)
  finally show ?case .
qed

lemma horizontal_lines:
  "calculateAccordionLines sc ''horizontal'' (real n) =
     map (\<lambda>i. \<lparr>x1 = rx (body (createShirtGeometry sc)),
                y1 = ry (body (createShirtGeometry sc))
                       + (rheight (body (createShirtGeometry sc)) + 80) / (real n + 1) * real i,
                x2 = rx (body (createShirtGeometry sc)) + rwidth (body (createShirtGeometry sc)),
                y2 = ry (body (createShirtGeometry sc))
                       + (rheight (body (createShirtGeometry sc)) + 80) / (real n + 1) * real i\<rparr>)
         [1..<Suc n]"
  by (simp add: calculateAccordionLines_def Let_def accordion_loop_nat createShirtGeometry_def
      del: upt_Suc)

lemma vertical_lines:
  "dir \<noteq> ''horizontal'' \<Longrightarrow>
   calculateAccordionLines sc dir (real n) =
     map (\<lambda>i. \<lparr>x1 = rx (body (createShirtGeometry sc))
                       + rwidth (body (createShirtGeometry sc)) / (real n + 1) * real i,
                y1 = ry (body (createShirtGeometry sc)),
                x2 = rx (body (createShirtGeometry sc))
                       + rwidth (body (createShirtGeometry sc)) / (real n + 1) * real i,
                y2 = ry (body (createShirtGeometry sc))
                       + rheight (body (createShirtGeometry sc))\<rparr>)
         [1..<Suc n]"
  by (simp add: calculateAccordionLines_def Let_def accordion_loop_nat createShirtGeometry_def
      del: upt_Suc)

text \<open>
  Claim C3. An accordion fold with an integer fold count \<open>n\<close> stores exactly \<open>n\<close>
  crease lines. In the vertical direction they lie at the multiples of
  \<open>width / (n + 1)\<close> from the left edge of the body rectangle, as the claim says. In
  the horizontal direction they start at the top edge of the body rectangle, but the
  spacing is \<open>HEIGHT / (n + 1)\<close>, that is \<open>(height + 80) / (n + 1)\<close> for the body's
  height: it is not the body's height divided by \<open>n + 1\<close>.
\<close>

theorem accordion_lines:
  "length (calculateAccordionLines sc dir (real n)) = n \<and>
   map y1 (calculateAccordionLines sc ''horizontal'' (real n)) =
     map (\<lambda>i. ry (body (createShirtGeometry sc))
                 + (rheight (body (createShirtGeometry sc)) + 80) / (real n + 1) * real i)
       [1..<Suc n] \<and>
   (dir \<noteq> ''horizontal'' \<longrightarrow>
      map x1 (calculateAccordionLines sc dir (real n)) =
        map (\<lambda>i. rx (body (createShirtGeometry sc))
                    + rwidth (body (createShirtGeometry sc)) / (real n + 1) * real i)
          [1..<Suc n])"
proof -
  have "length (calculateAccordionLines sc dir (real n)) = n"
    by (cases "dir = ''horizontal''") (simp_all add: horizontal_lines vertical_lines del: upt_Suc)
  moreover have "map y1 (calculateAccordionLines sc ''horizontal'' (real n)) =
     map (\<lambda>i. ry (body (createShirtGeometry sc))
                 + (rheight (body (createShirtGeometry sc)) + 80) / (real n + 1) * real i)
       [1..<Suc n]"
    by (simp add: horizontal_lines comp_def del: upt_Suc)
  moreover have "map x1 (calculateAccordionLines sc dir (real n)) =
        map (\<lambda>i. rx (body (createShirtGeometry sc))
                    + rwidth (body (createShirtGeometry sc)) / (real n + 1) * real i)
          [1..<Suc n]" if "dir \<noteq> ''horizontal''"
    using that by (simp add: vertical_lines comp_def del: upt_Suc)
  ultimately show ?thesis by blast
qed

text \<open>
  Under the demonstration configuration the body rectangle spans \<open>y = 180\<close> to
  \<open>y = 500\<close>. Three horizontal lines lie at 280, 380 and 480 (even spacing over the
  body would give 260, 340, 420), and of four horizontal lines the last lies on the
  bottom edge. Three vertical lines lie at 325, 400 and 475 in the body's \<open>x\<close> range
  250 to 550.
\<close>

theorem accordion_lines_witness:
  "map y1 (calculateAccordionLines demo_sc ''horizontal'' 3) = [280, 380, 480] \<and>
   map y1 (calculateAccordionLines demo_sc ''horizontal'' 4) = [260, 340, 420, 500] \<and>
   ry (body (createShirtGeometry demo_sc)) = 180 \<and>
   ry (body (createShirtGeometry demo_sc)) + rheight (body (createShirtGeometry demo_sc)) = 500 \<and>
   map x1 (calculateAccordionLines demo_sc ''vertical'' 3) = [325, 400, 475]"
proof -
  have g: "ry (body (createShirtGeometry demo_sc)) = 180"
    "rheight (body (createShirtGeometry demo_sc)) = 320"
    "rx (body (createShirtGeometry demo_sc)) = 250"
    "rwidth (body (createShirtGeometry demo_sc)) = 300"
    by (simp_all add: createShirtGeometry_def demo_sc_def)
  have "map y1 (calculateAccordionLines demo_sc ''horizontal'' (real 3)) = [280, 380, 480]"
    using accordion_lines[of demo_sc "''horizontal''" 3] by (simp add: g upt_rec)
  moreover have "map y1 (calculateAccordionLines demo_sc ''horizontal'' (real 4))
      = [260, 340, 420, 500]"
    using accordion_lines[of demo_sc "''horizontal''" 4] by (simp add: g upt_rec)
  moreover have "map x1 (calculateAccordionLines demo_sc ''vertical'' (real 3)) = [325, 400, 475]"
    using accordion_lines[of demo_sc "''vertical''" 3] by (simp add: g upt_rec)
  ultimately show ?thesis by (simp add: g)
qed

section \<open>Properties of colour mixing\<close>

declare blend_loop.simps [simp del]

subsection \<open>Rounding errors\<close>

text \<open>
  Rounding to a double moves a number by at most half a unit in the last place; for
  magnitudes up to \<open>2^20\<close> that is at most \<open>2^-33\<close>.
\<close>

lemma rne_close: "\<bar>real_of_int (rne y) - y\<bar> \<le> 1 / 2"
proof -
  have "real_of_int \<lfloor>y\<rfloor> \<le> y" "y < real_of_int \<lfloor>y\<rfloor> + 1"
    by linarith+
  then show ?thesis
    unfolding rne_def Let_def by (auto simp: abs_le_iff)
qed

lemma fl_error_ulp: "\<bar>fl x - x\<bar> \<le> 2 powr real_of_int (ulp_exp x) / 2"
proof (cases "x = 0")
  case True
  then show ?thesis by (simp add: fl_def)
next
  case False
  define u where "u = 2 powr real_of_int (ulp_exp x)"
  have u: "0 < u" by (simp add: u_def)
  have "fl x - x = (real_of_int (rne (x / u)) - x / u) * u"
    using False u by (simp add: fl_def u_def[symmetric] field_simps)
  then have "\<bar>fl x - x\<bar> = \<bar>real_of_int (rne (x / u)) - x / u\<bar> * u"
    using u by (simp add: abs_mult)
  also have "\<dots> \<le> 1 / 2 * u"
    using rne_close[of "x / u"] u by (intro mult_right_mono) simp_all
  finally show ?thesis by (simp add: u_def)
qed

lemma ulp_exp_le:
  assumes "x \<noteq> 0" and "\<bar>x\<bar> \<le> 2 ^ 20"
  shows "ulp_exp x \<le> - 32"
proof -
  have "\<bar>x\<bar> \<le> 2 powr 20"
    using assms(2) by simp
  then have "log 2 \<bar>x\<bar> \<le> 20"
    using assms(1) by (subst log_le_iff) simp_all
  then have "\<lfloor>log 2 \<bar>x\<bar>\<rfloor> \<le> 20"
    by (simp add: floor_le_iff)
  then show ?thesis
    by (simp add: ulp_exp_def)
qed

lemma fl_close:
  assumes "\<bar>x\<bar> \<le> 2 ^ 20"
  shows "\<bar>fl x - x\<bar> \<le> 1 / 2 ^ 33"
proof (cases "x = 0")
  case True
  then show ?thesis by (simp add: fl_def)
next
  case False
  have "2 powr real_of_int (ulp_exp x) \<le> 2 powr real_of_int (- 32)"
    using ulp_exp_le[OF False assms] by (intro powr_mono) simp_all
  also have "\<dots> = 1 / 2 ^ 32"
    by (simp add: powr_minus_divide)
  finally have "2 powr real_of_int (ulp_exp x) / 2 \<le> 1 / 2 ^ 33"
    by simp
  with fl_error_ulp[of x] show ?thesis by linarith
qed


text \<open>
  The double that \<open>mixColors\<close> rounds to a channel is within \<open>1/1000\<close> of the exact
  interpolation \<open>ra \<times> (1 - t) + rb \<times> t\<close> of the two channel values, also when the
  ratio itself carries a rounding error.
\<close>

lemma near_weaken: "near e x' x \<Longrightarrow> e \<le> e' \<Longrightarrow> near e' x' x"
  by (simp add: near_def)

lemma near_refl: "near 0 x x"
  by (simp add: near_def)

lemma near_fl:
  assumes "near e x' x" and "\<bar>x\<bar> + e \<le> 2 ^ 20"
  shows "near (e + 1 / 2 ^ 33) (fl x') x"
proof -
  from assms have "\<bar>x'\<bar> \<le> 2 ^ 20"
    unfolding near_def by linarith
  from fl_close[OF this] assms(1) show ?thesis
    unfolding near_def by linarith
qed

lemma near_one_minus: "near e x' x \<Longrightarrow> near e (1 - x') (1 - x)"
  by (simp add: near_def)

lemma near_add: "near e1 a' a \<Longrightarrow> near e2 b' b \<Longrightarrow> near (e1 + e2) (a' + b') (a + b)"
  unfolding near_def by linarith

lemma near_mult:
  assumes "near e1 a' a" and "near e2 b' b" and "\<bar>a\<bar> \<le> A" and "\<bar>b\<bar> \<le> B"
  shows "near (e1 * (B + e2) + A * e2) (a' * b') (a * b)"
proof -
  have e: "0 \<le> e1" "0 \<le> e2" "0 \<le> A"
    using assms unfolding near_def by linarith+
  have "a' * b' - a * b = (a' - a) * b' + a * (b' - b)"
    by (simp add: algebra_simps)
  then have "\<bar>a' * b' - a * b\<bar> \<le> \<bar>a' - a\<bar> * \<bar>b'\<bar> + \<bar>a\<bar> * \<bar>b' - b\<bar>"
    by (metis abs_mult abs_triangle_ineq)
  also have "\<dots> \<le> e1 * (B + e2) + A * e2"
  proof (intro add_mono mult_mono)
    show "\<bar>a' - a\<bar> \<le> e1" using assms(1) by (simp add: near_def)
    show "\<bar>b'\<bar> \<le> B + e2" using assms(2,4) unfolding near_def by linarith
    show "\<bar>a\<bar> \<le> A" by fact
    show "\<bar>b' - b\<bar> \<le> e2" using assms(2) by (simp add: near_def)
  qed (use e in simp_all)
  finally show ?thesis by (simp add: near_def)
qed

lemma near_times_255:
  assumes "near e x' x"
  shows "near (e * 255) (x' * 255) (x * 255)"
proof -
  have "x' * 255 - x * 255 = (x' - x) * 255"
    by (simp only: left_diff_distrib)
  then have "\<bar>x' * 255 - x * 255\<bar> = \<bar>x' - x\<bar> * 255"
    by (simp only: abs_mult abs_numeral)
  also have "\<dots> \<le> e * 255"
    using assms unfolding near_def by (intro mult_right_mono) simp_all
  finally show ?thesis
    unfolding near_def .
qed

lemma complement_near:
  assumes "0 \<le> r" and "r \<le> 255"
  shows "near (2 / 2 ^ 33) (fl (1 - fl (r / 255))) (1 - r / 255)"
proof -
  have q: "\<bar>r / 255\<bar> \<le> 1"
    using assms by simp
  have "near (1 / 2 ^ 33) (fl (r / 255)) (r / 255)"
    using near_fl[OF near_refl, of "r / 255"] q by simp
  then have "near (1 / 2 ^ 33) (1 - fl (r / 255)) (1 - r / 255)"
    by (rule near_one_minus)
  then have "near (1 / 2 ^ 33 + 1 / 2 ^ 33) (fl (1 - fl (r / 255))) (1 - r / 255)"
    using assms by (intro near_fl) simp_all
  then show ?thesis by simp
qed

lemma mix_channel_near:
  assumes ra: "0 \<le> ra" "ra \<le> 255" and rb: "0 \<le> rb" "rb \<le> 255"
    and t: "\<bar>t\<bar> \<le> 128" and t': "near (1 / 2 ^ 33) t' t"
  shows "near (1 / 1000) (mix_channel ra rb t') (ra * (1 - t) + rb * t)"
proof -
  let ?d = "1 / 2 ^ 33 :: real"
  let ?ca = "1 - ra / 255" and ?cb = "1 - rb / 255"
  have ca: "near (2 * ?d) (fl (1 - fl (ra / 255))) ?ca" and cab: "\<bar>?ca\<bar> \<le> 1"
    using complement_near[OF ra] ra by simp_all
  have cb: "near (2 * ?d) (fl (1 - fl (rb / 255))) ?cb" and cbb: "\<bar>?cb\<bar> \<le> 1"
    using complement_near[OF rb] rb by simp_all
  have sb: "\<bar>1 - t\<bar> \<le> 129"
    using t by linarith
  have s: "near (2 * ?d) (fl (1 - t')) (1 - t)"
    using near_fl[OF near_one_minus[OF t']] sb by simp
  have "near (2 * ?d * (129 + 2 * ?d) + 1 * (2 * ?d))
          (fl (1 - fl (ra / 255)) * fl (1 - t')) (?ca * (1 - t))"
    by (rule near_mult[OF ca s cab sb])
  then have p1': "near (261 * ?d) (fl (1 - fl (ra / 255)) * fl (1 - t')) (?ca * (1 - t))"
    by (rule near_weaken) simp
  have p1b: "\<bar>?ca * (1 - t)\<bar> \<le> 129"
    using mult_mono[OF cab sb] by (simp add: abs_mult)
  have p1: "near (262 * ?d) (fl (fl (1 - fl (ra / 255)) * fl (1 - t'))) (?ca * (1 - t))"
    using near_fl[OF p1'] p1b by simp
  have "near (2 * ?d * (128 + ?d) + 1 * ?d) (fl (1 - fl (rb / 255)) * t') (?cb * t)"
    by (rule near_mult[OF cb t' cbb t])
  then have p2': "near (258 * ?d) (fl (1 - fl (rb / 255)) * t') (?cb * t)"
    by (rule near_weaken) simp
  have p2b: "\<bar>?cb * t\<bar> \<le> 128"
    using mult_mono[OF cbb t] by (simp add: abs_mult)
  have p2: "near (259 * ?d) (fl (fl (1 - fl (rb / 255)) * t')) (?cb * t)"
    using near_fl[OF p2'] p2b by simp
  have mb: "\<bar>?ca * (1 - t) + ?cb * t\<bar> \<le> 257"
    using p1b p2b by linarith
  have m': "near (521 * ?d)
      (fl (fl (1 - fl (ra / 255)) * fl (1 - t')) + fl (fl (1 - fl (rb / 255)) * t'))
      (?ca * (1 - t) + ?cb * t)"
    using near_add[OF p1 p2] by simp
  have m: "near (522 * ?d)
      (fl (fl (fl (1 - fl (ra / 255)) * fl (1 - t')) + fl (fl (1 - fl (rb / 255)) * t')))
      (?ca * (1 - t) + ?cb * t)"
    using near_fl[OF m'] mb by simp
  have wb: "\<bar>1 - (?ca * (1 - t) + ?cb * t)\<bar> \<le> 258"
    using mb by linarith
  have w: "near (523 * ?d)
      (fl (1 - fl (fl (fl (1 - fl (ra / 255)) * fl (1 - t')) + fl (fl (1 - fl (rb / 255)) * t'))))
      (1 - (?ca * (1 - t) + ?cb * t))"
    using near_fl[OF near_one_minus[OF m]] wb by simp
  have xb: "\<bar>(1 - (?ca * (1 - t) + ?cb * t)) * 255\<bar> \<le> 65790"
    using wb by (simp add: abs_mult)
  have "near (523 * ?d * 255 + ?d) (mix_channel ra rb t')
      ((1 - (?ca * (1 - t) + ?cb * t)) * 255)"
    unfolding mix_channel_def
    using near_fl[OF near_times_255[OF w]] xb by simp
  then have "near (1 / 1000) (mix_channel ra rb t') ((1 - (?ca * (1 - t) + ?cb * t)) * 255)"
    by (rule near_weaken) simp
  moreover have "(1 - (?ca * (1 - t) + ?cb * t)) * 255 = ra * (1 - t) + rb * t"
    by (simp add: field_simps)
  ultimately show ?thesis by simp
qed


lemma mixColors_channels:
  "mixColors a b t =
     \<lparr>cr = round (mix_channel (real_of_int (cr a)) (real_of_int (cr b)) t),
      cg = round (mix_channel (real_of_int (cg a)) (real_of_int (cg b)) t),
      cb = round (mix_channel (real_of_int (cb a)) (real_of_int (cb b)) t)\<rparr>"
  by (simp add: mixColors_def rgbToCmy_def cmyToRgb_def mix_channel_def Let_def)


lemma round_near:
  assumes "near (1 / 1000) x v" and "\<bar>v - real_of_int n\<bar> \<le> 49 / 100"
  shows "round x = n"
proof -
  have "\<bar>x - real_of_int n\<bar> < 1 / 2"
    using assms unfolding near_def by linarith
  then show ?thesis
    by (rule round_unique')
qed

lemma round_diff:
  fixes x y :: real
  assumes "\<bar>x - y\<bar> < 1"
  shows "\<bar>round x - round y\<bar> \<le> 1"
proof -
  have "real_of_int (round x) \<le> x + 1 / 2" "x + 1 / 2 < real_of_int (round x) + 1"
    "real_of_int (round y) \<le> y + 1 / 2" "y + 1 / 2 < real_of_int (round y) + 1"
    unfolding round_def by linarith+
  with assms have "\<bar>real_of_int (round x) - real_of_int (round y)\<bar> < 2"
    by linarith
  then have "\<bar>real_of_int (round x - round y)\<bar> < real_of_int 2"
    by simp
  then have "\<bar>round x - round y\<bar> < 2"
    by (simp only: of_int_abs[symmetric] of_int_less_iff)
  then show ?thesis by simp
qed

lemma channel_endpoints:
  assumes "0 \<le> na" "na \<le> 255" "0 \<le> nb" "nb \<le> 255"
  shows "round (mix_channel (real_of_int na) (real_of_int nb) 0) = na"
    and "round (mix_channel (real_of_int na) (real_of_int nb) 1) = nb"
proof -
  have r: "0 \<le> real_of_int na" "real_of_int na \<le> 255" "0 \<le> real_of_int nb"
    "real_of_int nb \<le> 255"
    using assms by simp_all
  have "near (1 / 1000) (mix_channel (real_of_int na) (real_of_int nb) 0)
      (real_of_int na * (1 - 0) + real_of_int nb * 0)"
    by (rule mix_channel_near[OF r]) (simp_all add: near_def)
  then show "round (mix_channel (real_of_int na) (real_of_int nb) 0) = na"
    by (rule round_near) simp
  have "near (1 / 1000) (mix_channel (real_of_int na) (real_of_int nb) 1)
      (real_of_int na * (1 - 1) + real_of_int nb * 1)"
    by (rule mix_channel_near[OF r]) (simp_all add: near_def)
  then show "round (mix_channel (real_of_int na) (real_of_int nb) 1) = nb"
    by (rule round_near) simp
qed

lemma channel_symmetry:
  assumes "0 \<le> na" "na \<le> 255" "0 \<le> nb" "nb \<le> 255" and "0 \<le> t" "t \<le> 1"
  shows "\<bar>round (mix_channel (real_of_int na) (real_of_int nb) t)
          - round (mix_channel (real_of_int nb) (real_of_int na) (fl (1 - t)))\<bar> \<le> 1"
proof -
  let ?v = "real_of_int na * (1 - t) + real_of_int nb * t"
  have r: "0 \<le> real_of_int na" "real_of_int na \<le> 255" "0 \<le> real_of_int nb"
    "real_of_int nb \<le> 255"
    using assms by simp_all
  have n1: "near (1 / 1000) (mix_channel (real_of_int na) (real_of_int nb) t) ?v"
    using assms(5,6) by (intro mix_channel_near[OF r]) (simp_all add: near_def)
  have "near (1 / 2 ^ 33) (fl (1 - t)) (1 - t)"
    unfolding near_def using assms(5,6) by (intro fl_close) simp
  then have "near (1 / 1000) (mix_channel (real_of_int nb) (real_of_int na) (fl (1 - t)))
      (real_of_int nb * (1 - (1 - t)) + real_of_int na * (1 - t))"
    using assms(5,6) by (intro mix_channel_near[OF r(3,4) r(1,2)]) simp_all
  moreover have "real_of_int nb * (1 - (1 - t)) + real_of_int na * (1 - t) = ?v"
    by simp
  ultimately have n2:
    "near (1 / 1000) (mix_channel (real_of_int nb) (real_of_int na) (fl (1 - t))) ?v"
    by (simp only:)
  from n1 n2 have "\<bar>mix_channel (real_of_int na) (real_of_int nb) t
      - mix_channel (real_of_int nb) (real_of_int na) (fl (1 - t))\<bar> < 1"
    unfolding near_def by linarith
  then show ?thesis
    by (rule round_diff)
qed

text \<open>
  Claim C8. For all RGB colours \<open>a\<close>, \<open>b\<close> and every ratio \<open>t\<close> in \<open>[0, 1]\<close>:
  \<open>mixColors(a, b, 0) = a\<close> and \<open>mixColors(a, b, 1) = b\<close> exactly, and
  \<open>mixColors(a, b, t)\<close> and \<open>mixColors(b, a, 1 - t)\<close> agree within rounding tolerance:
  each channel differs by at most 1. The argument \<open>1 - t\<close> is the double that
  JavaScript computes for it.
\<close>

theorem mixColors_endpoints:
  assumes "rgb a" and "rgb b" and "0 \<le> t" and "t \<le> 1"
  shows "mixColors a b 0 = a \<and> mixColors a b 1 = b \<and>
         \<bar>cr (mixColors a b t) - cr (mixColors b a (fl (1 - t)))\<bar> \<le> 1 \<and>
         \<bar>cg (mixColors a b t) - cg (mixColors b a (fl (1 - t)))\<bar> \<le> 1 \<and>
         \<bar>cb (mixColors a b t) - cb (mixColors b a (fl (1 - t)))\<bar> \<le> 1"
proof -
  have a: "0 \<le> cr a" "cr a \<le> 255" "0 \<le> cg a" "cg a \<le> 255" "0 \<le> cb a" "cb a \<le> 255"
    using assms(1) by (simp_all add: rgb_def)
  have b: "0 \<le> cr b" "cr b \<le> 255" "0 \<le> cg b" "cg b \<le> 255" "0 \<le> cb b" "cb b \<le> 255"
    using assms(2) by (simp_all add: rgb_def)
  have "mixColors a b 0 = \<lparr>cr = cr a, cg = cg a, cb = cb a\<rparr>"
    by (simp only: mixColors_channels channel_endpoints(1)[OF a(1,2) b(1,2)]
        channel_endpoints(1)[OF a(3,4) b(3,4)] channel_endpoints(1)[OF a(5,6) b(5,6)])
  then have zero: "mixColors a b 0 = a"
    by simp
  have "mixColors a b 1 = \<lparr>cr = cr b, cg = cg b, cb = cb b\<rparr>"
    by (simp only: mixColors_channels channel_endpoints(2)[OF a(1,2) b(1,2)]
        channel_endpoints(2)[OF a(3,4) b(3,4)] channel_endpoints(2)[OF a(5,6) b(5,6)])
  then have one: "mixColors a b 1 = b"
    by simp
  have "\<bar>cr (mixColors a b t) - cr (mixColors b a (fl (1 - t)))\<bar> \<le> 1"
    "\<bar>cg (mixColors a b t) - cg (mixColors b a (fl (1 - t)))\<bar> \<le> 1"
    "\<bar>cb (mixColors a b t) - cb (mixColors b a (fl (1 - t)))\<bar> \<le> 1"
    using channel_symmetry[OF a(1,2) b(1,2) assms(3,4)]
      channel_symmetry[OF a(3,4) b(3,4) assms(3,4)]
      channel_symmetry[OF a(5,6) b(5,6) assms(3,4)]
    by (simp_all add: mixColors_channels)
  with zero one show ?thesis
    by simp
qed

lemma fl_eval:
  assumes "2 ^ 52 \<le> \<bar>x\<bar> * 2 ^ k" and "\<bar>x\<bar> * 2 ^ k < 2 ^ 53" and "k \<le> 1074"
  shows "fl x = real_of_int (rne (x * 2 ^ k)) / 2 ^ k"
proof -
  have x0: "x \<noteq> 0" and pos: "0 < \<bar>x\<bar>"
    using assms(1) by auto
  have p52: "2 powr (52 - real k) = 2 ^ 52 / 2 ^ k"
    by (simp add: powr_diff powr_realpow)
  have p53: "2 powr (53 - real k) = 2 ^ 53 / 2 ^ k"
    by (simp add: powr_diff powr_realpow)
  have "2 powr (52 - real k) \<le> \<bar>x\<bar>"
    unfolding p52 using assms(1) by (simp add: field_simps)
  then have lo: "52 - real k \<le> log 2 \<bar>x\<bar>"
    using pos by (subst le_log_iff) simp_all
  have "\<bar>x\<bar> < 2 powr (53 - real k)"
    unfolding p53 using assms(2) by (simp add: field_simps)
  then have hi: "log 2 \<bar>x\<bar> < 53 - real k"
    using pos by (subst log_less_iff) simp_all
  have "\<lfloor>log 2 \<bar>x\<bar>\<rfloor> = 52 - int k"
    by (rule floor_unique) (use lo hi in simp_all)
  then have u: "ulp_exp x = - int k"
    using assms(3) by (simp add: ulp_exp_def)
  have "2 powr real_of_int (- int k) = 1 / 2 ^ k"
    by (simp add: powr_minus_divide powr_realpow)
  then show ?thesis
    using x0 by (simp add: fl_def u)
qed

text \<open>
  The tolerance is needed: for black and \<open>(45, 0, 0)\<close> at the ratio \<open>0.1\<close> the red
  channel is 4, and for the colours swapped at the ratio \<open>1 - 0.1\<close> it is 5. The exact
  interpolation is 4.5 in both cases; the doubles passed to \<open>Math.round\<close> lie just
  below and just above it.
\<close>

lemma mixColors_not_symmetric:
  "cr (mixColors \<lparr>cr = 0, cg = 0, cb = 0\<rparr> \<lparr>cr = 45, cg = 0, cb = 0\<rparr> (fl (1 / 10))) = 4 \<and>
   cr (mixColors \<lparr>cr = 45, cg = 0, cb = 0\<rparr> \<lparr>cr = 0, cg = 0, cb = 0\<rparr> (fl (1 - fl (1 / 10)))) = 5"
proof -
  have t0: "fl (1 / 10) = 3602879701896397 / 36028797018963968"
    by (subst fl_eval[where k=56]) (simp_all add: rne_def Let_def)
  have s0: "fl (1 - (3602879701896397 / 36028797018963968)) = 8106479329266893 / 9007199254740992"
    by (subst fl_eval[where k=53]) (simp_all add: rne_def Let_def)
  have u1: "fl (0 / 255) = 0"
    by (simp add: fl_def)
  have u2: "fl (1 - 0) = 1"
    by (subst fl_eval[where k=52]) (simp_all add: rne_def Let_def)
  have u3: "fl (45 / 255) = 6358023003346583 / 36028797018963968"
    by (subst fl_eval[where k=55]) (simp_all add: rne_def Let_def)
  have u4: "fl (1 - (6358023003346583 / 36028797018963968)) = 3708846751952173 / 4503599627370496"
    by (subst fl_eval[where k=53]) (simp_all add: rne_def Let_def)
  have u5: "fl (1 - (3602879701896397 / 36028797018963968)) = 8106479329266893 / 9007199254740992"
    by (subst fl_eval[where k=53]) (simp_all add: rne_def Let_def)
  have u6: "fl (1 * (8106479329266893 / 9007199254740992)) = 8106479329266893 / 9007199254740992"
    by (subst fl_eval[where k=53]) (simp_all add: rne_def Let_def)
  have u7: "fl ((3708846751952173 / 4503599627370496) * (3602879701896397 / 36028797018963968)) = 5934154803123477 / 72057594037927936"
    by (subst fl_eval[where k=56]) (simp_all add: rne_def Let_def)
  have u8: "fl ((8106479329266893 / 9007199254740992) + (5934154803123477 / 72057594037927936)) = 553015542478583 / 562949953421312"
    by (subst fl_eval[where k=53]) (simp_all add: rne_def Let_def)
  have u9: "fl (1 - (553015542478583 / 562949953421312)) = 9934410942729 / 562949953421312"
    by (subst fl_eval[where k=58]) (simp_all add: rne_def Let_def)
  have u10: "fl ((9934410942729 / 562949953421312) * 255) = 2533274790395895 / 562949953421312"
    by (subst fl_eval[where k=50]) (simp_all add: rne_def Let_def)
  have v1: "fl (45 / 255) = 6358023003346583 / 36028797018963968"
    by (subst fl_eval[where k=55]) (simp_all add: rne_def Let_def)
  have v2: "fl (1 - (6358023003346583 / 36028797018963968)) = 3708846751952173 / 4503599627370496"
    by (subst fl_eval[where k=53]) (simp_all add: rne_def Let_def)
  have v3: "fl (0 / 255) = 0"
    by (simp add: fl_def)
  have v4: "fl (1 - 0) = 1"
    by (subst fl_eval[where k=52]) (simp_all add: rne_def Let_def)
  have v5: "fl (1 - (8106479329266893 / 9007199254740992)) = 900719925474099 / 9007199254740992"
    by (subst fl_eval[where k=56]) (simp_all add: rne_def Let_def)
  have v6: "fl ((3708846751952173 / 4503599627370496) * (900719925474099 / 9007199254740992)) = 5934154803123475 / 72057594037927936"
    by (subst fl_eval[where k=56]) (simp_all add: rne_def Let_def)
  have v7: "fl (1 * (8106479329266893 / 9007199254740992)) = 8106479329266893 / 9007199254740992"
    by (subst fl_eval[where k=53]) (simp_all add: rne_def Let_def)
  have v8: "fl ((5934154803123475 / 72057594037927936) + (8106479329266893 / 9007199254740992)) = 8848248679657327 / 9007199254740992"
    by (subst fl_eval[where k=53]) (simp_all add: rne_def Let_def)
  have v9: "fl (1 - (8848248679657327 / 9007199254740992)) = 158950575083665 / 9007199254740992"
    by (subst fl_eval[where k=58]) (simp_all add: rne_def Let_def)
  have v10: "fl ((158950575083665 / 9007199254740992) * 255) = 2533274790395911 / 562949953421312"
    by (subst fl_eval[where k=50]) (simp_all add: rne_def Let_def)
  have x1: "mix_channel 0 45 (3602879701896397 / 36028797018963968) = 2533274790395895 / 562949953421312"
    unfolding mix_channel_def by (simp only: u1 u2 u3 u4 u5 u6 u7 u8 u9 u10)
  have x2: "mix_channel 45 0 (8106479329266893 / 9007199254740992) = 2533274790395911 / 562949953421312"
    unfolding mix_channel_def by (simp only: v1 v2 v3 v4 v5 v6 v7 v8 v9 v10)
  have "round (2533274790395895 / 562949953421312 :: real) = 4" "round (2533274790395911 / 562949953421312 :: real) = 5"
    by (simp_all add: round_def)
  then show ?thesis
    by (simp only: mixColors_channels color.select_convs of_int_0 of_int_numeral t0 s0 x1 x2)
qed

text \<open>
  A channel of \<open>mixColors\<close> is the integer nearest to the exact interpolation whenever
  that interpolation is not within \<open>1/100\<close> of a tie.
\<close>

lemma mixColors_value:
  assumes "rgb a" and "rgb b" and "\<bar>t\<bar> \<le> 128"
    and "\<bar>real_of_int (cr a) * (1 - t) + real_of_int (cr b) * t - real_of_int n1\<bar> \<le> 49 / 100"
    and "\<bar>real_of_int (cg a) * (1 - t) + real_of_int (cg b) * t - real_of_int n2\<bar> \<le> 49 / 100"
    and "\<bar>real_of_int (cb a) * (1 - t) + real_of_int (cb b) * t - real_of_int n3\<bar> \<le> 49 / 100"
  shows "mixColors a b t = \<lparr>cr = n1, cg = n2, cb = n3\<rparr>"
proof -
  have t': "near (1 / 2 ^ 33) t t"
    by (simp add: near_def)
  have a: "0 \<le> real_of_int (cr a)" "real_of_int (cr a) \<le> 255" "0 \<le> real_of_int (cg a)"
    "real_of_int (cg a) \<le> 255" "0 \<le> real_of_int (cb a)" "real_of_int (cb a) \<le> 255"
    using assms(1) by (simp_all add: rgb_def)
  have b: "0 \<le> real_of_int (cr b)" "real_of_int (cr b) \<le> 255" "0 \<le> real_of_int (cg b)"
    "real_of_int (cg b) \<le> 255" "0 \<le> real_of_int (cb b)" "real_of_int (cb b) \<le> 255"
    using assms(2) by (simp_all add: rgb_def)
  have "round (mix_channel (real_of_int (cr a)) (real_of_int (cr b)) t) = n1"
    by (rule round_near[OF mix_channel_near[OF a(1,2) b(1,2) assms(3) t'] assms(4)])
  moreover have "round (mix_channel (real_of_int (cg a)) (real_of_int (cg b)) t) = n2"
    by (rule round_near[OF mix_channel_near[OF a(3,4) b(3,4) assms(3) t'] assms(5)])
  moreover have "round (mix_channel (real_of_int (cb a)) (real_of_int (cb b)) t) = n3"
    by (rule round_near[OF mix_channel_near[OF a(5,6) b(5,6) assms(3) t'] assms(6)])
  ultimately show ?thesis
    by (simp only: mixColors_channels)
qed

lemma rgb_demo: "rgb red" "rgb blue" "rgb \<lparr>cr = 255, cg = 255, cb = 255\<rparr>"
  by (simp_all add: rgb_def red_def blue_def)

lemma mix_red_blue_quarter: "mixColors red blue (1 / 4) = \<lparr>cr = 191, cg = 0, cb = 64\<rparr>"
  by (rule mixColors_value[OF rgb_demo(1,2)]) (simp_all add: red_def blue_def)




theorem mixColors_endpoints_witness:
  "mixColors red blue 0 = red \<and> mixColors red blue 1 = blue \<and>
   mixColors red blue (1 / 4) = \<lparr>cr = 191, cg = 0, cb = 64\<rparr> \<and>
   \<bar>cr (mixColors red blue (1 / 4)) - cr (mixColors blue red (fl (1 - 1 / 4)))\<bar> \<le> 1"
  using mixColors_endpoints[OF rgb_demo(1,2), of "1 / 4"] mix_red_blue_quarter
  by simp

section \<open>Properties of point-query blending\<close>




lemma euclid_30_40: "euclid 0 0 30 40 = 50"
proof -
  have "sqrt (30\<^sup>2 + 40\<^sup>2) = sqrt (50\<^sup>2)" by simp
  then show ?thesis by (simp add: euclid_def del: real_sqrt_eq_iff)
qed






text \<open>
  Claim C9. When no recorded dye point covers the queried position (the distance to
  every point exceeds its radius), \<open>mixDyesAtPoint\<close> returns white, \<open>(255, 255, 255)\<close>.
\<close>

theorem mixDyesAtPoint_uncovered:
  assumes "\<forall>p\<in>set (dyePoints s). radius p < distance qx qy (dp_x p) (dp_y p)"
  shows "mixDyesAtPoint distance s qx qy = \<lparr>cr = 255, cg = 255, cb = 255\<rparr>"
proof -
  have "filter (\<lambda>p. distance qx qy (dp_x p) (dp_y p) \<le> radius p) (dyePoints s) = []"
    using assms by (auto simp: filter_empty_conv)
  then show ?thesis
    by (simp add: mixDyesAtPoint_def)
qed

theorem mixDyesAtPoint_uncovered_witness:
  "mixDyesAtPoint euclid
     \<lparr>dyePoints = [\<lparr>dp_x = 30, dp_y = 40, color = red, intensity = 50, radius = 10,
                     layerCount = 1, timestamp = 0\<rparr>],
      isApplying = False, currentBrushSize = 10, currentIntensity = 50, dyeLayer = []\<rparr> 0 0
   = \<lparr>cr = 255, cg = 255, cb = 255\<rparr>"
  by (rule mixDyesAtPoint_uncovered) (simp add: euclid_30_40)

section \<open>Properties of the dye model\<close>

lemma dye_reachable_layerCount:
  "dye_reachable dc sc s \<Longrightarrow> \<forall>p\<in>set (dyePoints s). 1 \<le> layerCount p"
proof (induction rule: dye_reachable.induct)
  case d_init
  show ?case by (simp add: dye_init_def)
next
  case (d_setBrushSize s v)
  then show ?case by (simp add: setBrushSize_def)
next
  case (d_setIntensity s v)
  then show ?case by (simp add: setIntensity_def)
next
  case (d_start s eng cur now rand px py)
  then show ?case by (simp add: startApplying_def applyDye_def Let_def)
next
  case (d_continue s eng cur now rand px py)
  then show ?case by (simp add: continueApplying_def applyDye_def Let_def)
next
  case (d_stop s)
  then show ?case by (simp add: stopApplying_def)
next
  case (d_clear s)
  then show ?case by (simp add: dye_clear_def)
qed

text \<open>The bleed discs are drawn after the disc of the dye point itself.\<close>

lemma renderBleed_foldl:
  "foldl (\<lambda>c bp. renderBleedPoint brush c bp v) ctx bps =
     ctx @ concat (map (\<lambda>bp. renderBleedPoint brush [] bp v) bps)"
  by (induction bps arbitrary: ctx) (simp_all add: renderBleedPoint_def Let_def)

lemma simulateBleed_prefix:
  "\<exists>ds. simulateBleed dc rand brush ctx p = ctx @ ds"
  by (simp add: simulateBleed_def Let_def renderBleed_foldl)

lemma applyDye_rendered:
  "dyeLayer (applyDye dc eng cur now rand s px py) ! length (dyeLayer s) =
     last (renderDyePoint [] (last (dyePoints (applyDye dc eng cur now rand s px py))))"
proof -
  let ?p = "last (dyePoints (applyDye dc eng cur now rand s px py))"
  obtain ds where "simulateBleed dc rand (currentBrushSize s) (renderDyePoint (dyeLayer s) ?p) ?p
      = renderDyePoint (dyeLayer s) ?p @ ds"
    using simulateBleed_prefix by blast
  then have "dyeLayer (applyDye dc eng cur now rand s px py)
      = renderDyePoint (dyeLayer s) ?p @ ds"
    by (simp add: applyDye_def Let_def)
  then show ?thesis
    by (simp add: renderDyePoint_def Let_def nth_append)
qed

text \<open>
  Concrete states: the engine after the default spiral fold has four layers; a dye
  model set to intensity 80 and brush size 30; the point it records at the centre of
  the body.
\<close>

lemma spiral_demo_layers:
  "length (getLayers (snd (applyFold demo_fc demo_sc rand engine_init SPIRAL empty_params))) = 4"
  by (simp add: applyFold_def engine_init_def createSpiralFold_def or_num_def empty_params_def
      updateLayers_def js_Array_def demo_fc_def demo_sc_def Let_def getLayers_def)

lemma demo_brush:
  "currentIntensity (setBrushSize demo_dc (setIntensity demo_dc (dye_init demo_dc) 80) 30) = 80"
  "currentBrushSize (setBrushSize demo_dc (setIntensity demo_dc (dye_init demo_dc) 80) 30) = 30"
  by (simp_all add: setBrushSize_def setIntensity_def dye_init_def demo_dc_def)

lemma demo_on_shirt: "isPointOnShirt demo_sc 400 300"
  by (simp add: isPointOnShirt_def createShirtGeometry_def demo_sc_def Let_def)

text \<open>
  Claim C5. The dye point that \<open>applyDye\<close> records has the current intensity and the
  layer count \<open>max(1, layers.length)\<close> of that moment, and its effective intensity is
  the recorded intensity divided by the square root of that layer count; the disc
  rendered for it carries the alpha values \<open>effectiveIntensity / 100 \<times> 0.8\<close> and half
  of that. The same formula holds for every recorded point, and intensity 80 with
  layer count 4 gives effective intensity 40.
\<close>

theorem effective_intensity_snapshot:
  "effectiveIntensity (last (dyePoints (applyDye dc eng cur now rand s px py)))
     = currentIntensity s / sqrt (real (max 1 (length (getLayers eng)))) \<and>
   d_stops (dyeLayer (applyDye dc eng cur now rand s px py) ! length (dyeLayer s))
     = [(0, effectiveIntensity (last (dyePoints (applyDye dc eng cur now rand s px py)))
              / 100 * (8 / 10)),
        (7 / 10, effectiveIntensity (last (dyePoints (applyDye dc eng cur now rand s px py)))
              / 100 * (8 / 10) * (5 / 10)),
        (1, 0)] \<and>
   (\<forall>p \<in> set (dyePoints t). effectiveIntensity p = intensity p / sqrt (real (layerCount p))) \<and>
   (intensity q = 80 \<and> layerCount q = 4 \<longrightarrow> effectiveIntensity q = 40)"
proof -
  have "sqrt (real 4) = 2"
    using real_sqrt_abs[of 2] by simp
  then have "intensity q = 80 \<and> layerCount q = 4 \<longrightarrow> effectiveIntensity q = 40"
    by (simp add: effectiveIntensity_def)
  moreover have "effectiveIntensity (last (dyePoints (applyDye dc eng cur now rand s px py)))
     = currentIntensity s / sqrt (real (max 1 (length (getLayers eng))))"
    by (simp add: effectiveIntensity_def applyDye_def Let_def)
  moreover have "d_stops (dyeLayer (applyDye dc eng cur now rand s px py) ! length (dyeLayer s))
     = [(0, effectiveIntensity (last (dyePoints (applyDye dc eng cur now rand s px py)))
              / 100 * (8 / 10)),
        (7 / 10, effectiveIntensity (last (dyePoints (applyDye dc eng cur now rand s px py)))
              / 100 * (8 / 10) * (5 / 10)),
        (1, 0)]"
    by (simp only: applyDye_rendered) (simp add: renderDyePoint_def Let_def)
  ultimately show ?thesis
    by (simp add: effectiveIntensity_def)
qed

theorem effective_intensity_snapshot_witness:
  "effectiveIntensity (last (dyePoints
      (applyDye demo_dc
         (snd (applyFold demo_fc demo_sc (\<lambda>k. 0) engine_init SPIRAL empty_params))
         red 0 (\<lambda>k. 0)
         (setBrushSize demo_dc (setIntensity demo_dc (dye_init demo_dc) 80) 30) 400 300)))
   = 40"
proof -
  have "sqrt (real 4) = 2"
    using real_sqrt_abs[of 2] by simp
  then show ?thesis
    using effective_intensity_snapshot[of demo_dc
        "snd (applyFold demo_fc demo_sc (\<lambda>k. 0) engine_init SPIRAL empty_params)"
        red 0 "\<lambda>k. 0"
        "setBrushSize demo_dc (setIntensity demo_dc (dye_init demo_dc) 80) 30" 400 300
        "dye_init demo_dc" demo_point]
    by (simp add: spiral_demo_layers demo_brush)
qed

text \<open>
  Claim C10. The layer count that \<open>applyDye\<close> records is \<open>max(1, layers.length)\<close>: it
  is 1 when the engine's layers are empty, as in a fresh and in a cleared engine. So
  every point recorded in a reachable state of the dye model has a layer count of at
  least 1, and the divisor \<open>sqrt(layerCount)\<close> of the attenuation is positive.
\<close>

theorem layerCount_positive:
  "layerCount (last (dyePoints (applyDye dc eng cur now rand s px py)))
     = max 1 (length (getLayers eng)) \<and>
   layerCount (last (dyePoints (applyDye dc engine_init cur now rand s px py))) = 1 \<and>
   layerCount (last (dyePoints (applyDye dc (clear eng) cur now rand s px py))) = 1 \<and>
   (dye_reachable dc sc t \<longrightarrow>
      (\<forall>p\<in>set (dyePoints t). 1 \<le> layerCount p \<and> 0 < sqrt (real (layerCount p))))"
proof -
  have "\<forall>p\<in>set (dyePoints t). 1 \<le> layerCount p \<and> 0 < sqrt (real (layerCount p))"
    if "dye_reachable dc sc t"
    using dye_reachable_layerCount[OF that] by (auto simp: Suc_le_eq)
  then show ?thesis
    by (simp add: applyDye_def Let_def getLayers_def engine_init_def clear_def)
qed

theorem layerCount_positive_witness:
  "dye_reachable demo_dc demo_sc
     (startApplying demo_dc demo_sc engine_init red 0 (\<lambda>k. 0) (dye_init demo_dc) 400 300) \<and>
   map layerCount (dyePoints
     (startApplying demo_dc demo_sc engine_init red 0 (\<lambda>k. 0) (dye_init demo_dc) 400 300)) = [1] \<and>
   0 < sqrt (real (layerCount (last (dyePoints
     (startApplying demo_dc demo_sc engine_init red 0 (\<lambda>k. 0) (dye_init demo_dc) 400 300)))))"
proof -
  let ?t = "startApplying demo_dc demo_sc engine_init red 0 (\<lambda>k. 0) (dye_init demo_dc) 400 300"
  have r: "dye_reachable demo_dc demo_sc ?t"
    by (rule d_start[OF d_init])
  have p: "map layerCount (dyePoints ?t) = [1]"
    by (simp add: startApplying_def demo_on_shirt applyDye_def Let_def dye_init_def
        getLayers_def engine_init_def)
  then have "last (dyePoints ?t) \<in> set (dyePoints ?t)"
    by (intro last_in_set) auto
  with layerCount_positive[of demo_dc engine_init red 0 "\<lambda>k. 0" "dye_init demo_dc" 400 300
      demo_sc ?t] r p
  show ?thesis by blast
qed

section \<open>Properties of the unfolder\<close>

declare spiral_loop.simps [simp del]

text \<open>
  Each rendering function appends, for the points it is given, the discs of the copies
  that the family rule prescribes.
\<close>

lemma renderFinalPoint_disc:
  "renderFinalPoint ctx (dp_x p) (dp_y p) (color p) (intensity p) (radius p) = ctx @ [final_disc p]"
  by (simp add: renderFinalPoint_def final_disc_def Let_def)

lemma renderFinalPoint_moved:
  "renderFinalPoint ctx a b (color p) (intensity p) (radius p) =
     ctx @ [final_disc (p\<lparr>dp_x := a, dp_y := b\<rparr>)]"
  by (simp add: renderFinalPoint_def final_disc_def Let_def)

lemma renderFinalPoint_faded:
  "renderFinalPoint ctx a b (color p) v (radius p) =
     ctx @ [final_disc (p\<lparr>dp_x := a, dp_y := b, intensity := v\<rparr>)]"
  by (simp add: renderFinalPoint_def final_disc_def Let_def)

lemma mirror_foldl:
  "foldl (\<lambda>c l. let mirrored = mirrorPoint (dp_x p) (dp_y p) l dir
                 in renderFinalPoint c (pt_x mirrored) (pt_y mirrored)
                      (color p) (intensity p) (radius p)) ctx ls =
   ctx @ map (\<lambda>l. final_disc (p\<lparr>dp_x := pt_x (mirrorPoint (dp_x p) (dp_y p) l dir),
                                 dp_y := pt_y (mirrorPoint (dp_x p) (dp_y p) l dir)\<rparr>)) ls"
  by (induction ls arbitrary: ctx) (simp_all add: Let_def renderFinalPoint_moved)

lemma renderPointWithSymmetry_copies:
  "renderPointWithSymmetry ctx p ls dir =
     ctx @ map final_disc (spec_copies sc rand k (Accordion dir n ls m) p)"
  by (simp add: renderPointWithSymmetry_def mirror_foldl renderFinalPoint_disc comp_def)

lemma unfoldAccordion_copies:
  "unfoldAccordion ctx (Accordion dir n ls m) pts =
     ctx @ map final_disc (spec_copies_all sc rand k (Accordion dir n ls m) pts)"
proof (induction pts arbitrary: ctx)
  case Nil
  show ?case by (simp add: unfoldAccordion_def)
next
  case (Cons p ps)
  have "unfoldAccordion ctx (Accordion dir n ls m) (p # ps) =
      unfoldAccordion (renderPointWithSymmetry ctx p ls dir) (Accordion dir n ls m) ps"
    by (simp add: unfoldAccordion_def)
  then show ?case
    by (simp add: Cons.IH renderPointWithSymmetry_copies[where sc=sc and rand=rand and k=k and n=n and m=m])
qed

lemma real_less_iff_nat_ceiling: "real i < r \<longleftrightarrow> i < nat \<lceil>r\<rceil>"
proof -
  have "real i < r \<longleftrightarrow> int i < \<lceil>r\<rceil>"
    by (simp add: less_ceiling_iff)
  also have "\<dots> \<longleftrightarrow> i < nat \<lceil>r\<rceil>"
    by linarith
  finally show ?thesis .
qed

lemma spiral_loop_stop:
  "\<not> i < nat \<lceil>rot * 4\<rceil> \<Longrightarrow> spiral_loop rot cx cy p i ctx = ctx"
  by (subst spiral_loop.simps) (simp only: real_less_iff_nat_ceiling if_False)

lemma spiral_loop_step:
  "i < nat \<lceil>rot * 4\<rceil> \<Longrightarrow>
   spiral_loop rot cx cy p i ctx =
     spiral_loop rot cx cy p (Suc i)
       (renderFinalPoint ctx
          (pt_x (rotatePoint (dp_x p) (dp_y p) cx cy ((real i / (rot * 4)) * pi * 2)))
          (pt_y (rotatePoint (dp_x p) (dp_y p) cx cy ((real i / (rot * 4)) * pi * 2)))
          (color p) (intensity p) (radius p))"
  by (subst spiral_loop.simps) (simp only: real_less_iff_nat_ceiling if_True)

lemma spiral_loop_copies:
  "i \<le> nat \<lceil>rot * 4\<rceil> \<Longrightarrow>
   spiral_loop rot cx cy p i ctx =
     ctx @ map (\<lambda>i. final_disc
                  (p\<lparr>dp_x := pt_x (rotatePoint (dp_x p) (dp_y p) cx cy ((real i / (rot * 4)) * pi * 2)),
                     dp_y := pt_y (rotatePoint (dp_x p) (dp_y p) cx cy ((real i / (rot * 4)) * pi * 2))\<rparr>))
             [i..<nat \<lceil>rot * 4\<rceil>]"
proof (induction "nat \<lceil>rot * 4\<rceil> - i" arbitrary: i ctx)
  case 0
  then have ge: "\<not> i < nat \<lceil>rot * 4\<rceil>" by linarith
  then have "nat \<lceil>rot * 4\<rceil> \<le> i" by linarith
  then have "[i..<nat \<lceil>rot * 4\<rceil>] = []" by (rule upt_conv_Nil)
  then show ?case
    by (simp only: spiral_loop_stop[OF ge] list.map append_Nil2)
next
  case (Suc d)
  then have lt: "i < nat \<lceil>rot * 4\<rceil>" and le: "Suc i \<le> nat \<lceil>rot * 4\<rceil>"
    and d: "d = nat \<lceil>rot * 4\<rceil> - Suc i"
    by linarith+
  have u: "[i..<nat \<lceil>rot * 4\<rceil>] = i # [Suc i..<nat \<lceil>rot * 4\<rceil>]"
    using lt by (rule upt_conv_Cons)
  show ?case
    by (simp only: spiral_loop_step[OF lt] Suc.hyps(1)[OF d le] renderFinalPoint_moved u
        list.map append_assoc append_Cons append_Nil)
qed

lemma unfoldSpiral_copies:
  "unfoldSpiral ctx (Spiral cx cy rot m) pts =
     ctx @ map final_disc (spec_copies_all sc rand k (Spiral cx cy rot m) pts)"
proof (induction pts arbitrary: ctx)
  case Nil
  show ?case by (simp add: unfoldSpiral_def)
next
  case (Cons p ps)
  have "unfoldSpiral ctx (Spiral cx cy rot m) (p # ps) =
      unfoldSpiral (spiral_loop rot cx cy p 0 ctx) (Spiral cx cy rot m) ps"
    by (simp add: unfoldSpiral_def)
  then show ?case
    by (simp add: Cons.IH spiral_loop_copies comp_def)
qed

lemma unfoldDiagonal_copies:
  "unfoldDiagonal sc ctx (Diagonal ang m) pts =
     ctx @ map final_disc (spec_copies_all sc rand k (Diagonal ang m) pts)"
proof (induction pts arbitrary: ctx)
  case Nil
  show ?case by (simp add: unfoldDiagonal_def)
next
  case (Cons p ps)
  have "unfoldDiagonal sc ctx (Diagonal ang m) (p # ps) =
      unfoldDiagonal sc
        (renderFinalPoint
           (renderFinalPoint ctx (dp_x p) (dp_y p) (color p) (intensity p) (radius p))
           (pt_x (mirrorDiagonal (dp_x p) (dp_y p) (CENTER_X sc) (CENTER_Y sc) ang))
           (pt_y (mirrorDiagonal (dp_x p) (dp_y p) (CENTER_X sc) (CENTER_Y sc) ang))
           (color p) (intensity p) (radius p))
        (Diagonal ang m) ps"
    by (simp add: unfoldDiagonal_def Let_def)
  then show ?case
    by (simp add: Cons.IH renderFinalPoint_disc renderFinalPoint_moved)
qed

lemma generateCrumpleVariations_eq:
  "generateCrumpleVariations rand k p cps =
     (p # map (\<lambda>j. p\<lparr>dp_x := dp_x p + (rand (k + 2 * j) - 5 / 10) * 40,
                      dp_y := dp_y p + (rand (Suc (k + 2 * j)) - 5 / 10) * 40\<rparr>)
            [0..<length cps],
      k + 2 * length cps)"
proof (induction cps rule: rev_induct)
  case Nil
  show ?case by (simp add: generateCrumpleVariations_def)
next
  case (snoc cp cps)
  have "generateCrumpleVariations rand k p (cps @ [cp]) =
      (case generateCrumpleVariations rand k p cps of
         (variations, j) \<Rightarrow>
           (variations @
              [p\<lparr>dp_x := dp_x p + (rand j - 5 / 10) * 40,
                 dp_y := dp_y p + (rand (Suc j) - 5 / 10) * 40\<rparr>],
            j + 2))"
    by (simp add: generateCrumpleVariations_def case_prod_unfold)
  then show ?case
    by (simp add: snoc.IH)
qed

lemma faded_foldl:
  "foldl (\<lambda>c' varied. renderFinalPoint c' (dp_x varied) (dp_y varied) (color p)
                         (intensity p * (7 / 10)) (radius p)) ctx vs =
   ctx @ map (\<lambda>q. final_disc
                (p\<lparr>dp_x := dp_x q, dp_y := dp_y q, intensity := intensity p * (7 / 10)\<rparr>)) vs"
  by (induction vs arbitrary: ctx) (simp_all add: renderFinalPoint_faded)

lemma unfoldCrumple_copies:
  "unfoldCrumple rand (ctx, k) (Crumple cps m) pts =
     (ctx @ map final_disc (spec_copies_all sc rand k (Crumple cps m) pts),
      k + length pts * (2 * length cps))"
proof (induction pts arbitrary: ctx k)
  case Nil
  show ?case by (simp add: unfoldCrumple_def)
next
  case (Cons p ps)
  let ?vs = "p # map (\<lambda>j. p\<lparr>dp_x := dp_x p + (rand (k + 2 * j) - 5 / 10) * 40,
                      dp_y := dp_y p + (rand (Suc (k + 2 * j)) - 5 / 10) * 40\<rparr>)
            [0..<length cps]"
  have "unfoldCrumple rand (ctx, k) (Crumple cps m) (p # ps) =
      unfoldCrumple rand
        (foldl (\<lambda>c' varied. renderFinalPoint c' (dp_x varied) (dp_y varied) (color p)
                         (intensity p * (7 / 10)) (radius p)) ctx ?vs,
         k + 2 * length cps)
        (Crumple cps m) ps"
    by (simp add: unfoldCrumple_def generateCrumpleVariations_eq)
  also have "\<dots> =
      (ctx @ map final_disc (spec_copies sc rand k (Crumple cps m) p)
           @ map final_disc (spec_copies_all sc rand (k + 2 * length cps) (Crumple cps m) ps),
       k + 2 * length cps + length ps * (2 * length cps))"
    by (simp only: Cons.IH faded_foldl) (simp add: comp_def)
  finally show ?case
    by simp
qed

lemma applyUnfoldTransform_copies:
  "applyUnfoldTransform sc rand (ctx, k) f pts =
     (ctx @ map final_disc (spec_copies_all sc rand k f pts), k + length pts * spec_draws f)"
proof (cases f)
  case (Accordion dir n ls m)
  then show ?thesis
    by (simp add: unfoldAccordion_copies[where sc=sc and rand=rand and k=k])
next
  case (Spiral cx cy rot m)
  then show ?thesis
    by (simp add: unfoldSpiral_copies[where sc=sc and rand=rand and k=k])
next
  case (Crumple cps m)
  then show ?thesis
    by (simp add: unfoldCrumple_copies[where sc=sc])
next
  case (Diagonal ang m)
  then show ?thesis
    by (simp add: unfoldDiagonal_copies[where rand=rand and k=k])
qed

text \<open>
  The loop of \<open>unfoldPattern\<close> visits the folds from the last to the first, and every
  visit passes the same \<open>dyePoints\<close>.
\<close>

lemma unfold_loop_foldl:
  "n \<le> length fs \<Longrightarrow>
   unfold_loop sc rand fs pts n st =
     foldl (\<lambda>st f. applyUnfoldTransform sc rand st f pts) st (rev (take n fs))"
proof (induction n arbitrary: st)
  case 0
  show ?case by simp
next
  case (Suc n)
  then have "take (Suc n) fs = take n fs @ [fs ! n]"
    by (simp add: take_Suc_conv_app_nth)
  with Suc show ?case by simp
qed

lemma foldl_independent:
  "foldl (\<lambda>st f. applyUnfoldTransform sc rand st f pts) (ctx, k) gs =
     (ctx @ unfold_original_points sc rand k gs pts, k + length pts * sum_list (map spec_draws gs))"
  by (induction gs arbitrary: ctx k)
    (simp_all add: applyUnfoldTransform_copies algebra_simps)

lemma unfoldPattern_independent:
  "unfoldPattern sc rand fs pts = unfold_original_points sc rand 0 (rev fs) pts"
  by (simp add: unfoldPattern_def unfold_loop_foldl foldl_independent)


text \<open>
  Claim C2, as amended. For a non-empty fold stack the unfolder processes the folds
  from the most recently applied to the first, and for each fold it transforms and
  renders the recorded dye points themselves: the final layer is the concatenation,
  fold by fold in that order, of the discs of each fold's copies of the recorded
  points. Copies rendered for one fold are not transformed by another.
\<close>

theorem unfold_renders_original_points:
  assumes "getFolds eng \<noteq> []"
  shows "generatePattern sc rand eng dye =
           unfold_original_points sc rand 0 (rev (getFolds eng)) (getDyePoints dye)"
proof -
  let ?fs = "getFolds eng" and ?pts = "getDyePoints dye"
  from assms have "length ?fs \<noteq> 0"
    by simp
  then have "generatePattern sc rand eng dye = unfoldPattern sc rand ?fs ?pts"
    by (simp add: generatePattern_def Let_def)
  also have "\<dots> =
      fst (foldl (\<lambda>st f. applyUnfoldTransform sc rand st f ?pts) ([], 0) (rev ?fs))"
    by (simp add: unfoldPattern_def unfold_loop_foldl)
  also have "\<dots> = unfold_original_points sc rand 0 (rev ?fs) ?pts"
    by (simp add: foldl_independent)
  finally show ?thesis .
qed

text \<open>
  Concrete input: the engine after the default accordion fold and the default diagonal
  fold (six layers), and the dye model after one point applied at \<open>(420, 310)\<close> with
  intensity 80 and brush size 30.
\<close>

lemma demo_accordion:
  "createAccordionFold demo_sc empty_params =
     Accordion ''horizontal'' 3
       [\<lparr>x1 = 250, y1 = 280, x2 = 550, y2 = 280\<rparr>,
        \<lparr>x1 = 250, y1 = 380, x2 = 550, y2 = 380\<rparr>,
        \<lparr>x1 = 250, y1 = 480, x2 = 550, y2 = 480\<rparr>] 3"
proof -
  have "calculateAccordionLines demo_sc ''horizontal'' (real 3) =
       [\<lparr>x1 = 250, y1 = 280, x2 = 550, y2 = 280\<rparr>,
        \<lparr>x1 = 250, y1 = 380, x2 = 550, y2 = 380\<rparr>,
        \<lparr>x1 = 250, y1 = 480, x2 = 550, y2 = 480\<rparr>]"
    using accordion_loop_nat[of 1 3 _ "[]"]
    by (simp add: calculateAccordionLines_def Let_def demo_sc_def upt_rec)
  then show ?thesis
    by (simp add: createAccordionFold_def empty_params_def or_num_def or_str_def Let_def)
qed

lemma demo_diagonal: "createDiagonalFold demo_sc empty_params = Diagonal 45 2"
  by (simp add: createDiagonalFold_def empty_params_def or_num_def)

lemma mirrorDiagonal_45:
  "mirrorDiagonal px py cx cy 45 = \<lparr>pt_x = cx + (py - cy), pt_y = cy + (px - cx)\<rparr>"
proof -
  have "2 * (45 * pi / 180) = pi / 2" by simp
  then show ?thesis
    by (simp add: mirrorDiagonal_def Let_def)
qed

lemma demo_independent:
  "map (\<lambda>d. (d_x d, d_y d)) (unfoldPattern demo_sc (\<lambda>k. 0) demo_folds [demo_point]) =
     [(420, 310), (410, 320), (420, 310), (420, 250), (420, 450), (420, 650)]"
  unfolding unfoldPattern_independent demo_folds_def demo_accordion demo_diagonal
  by (simp add: demo_point_def mirrorDiagonal_45 mirrorPoint_def final_disc_def demo_sc_def
      Let_def)

lemma demo_accumulating:
  "map (\<lambda>d. (d_x d, d_y d)) (spec_unfold_accumulating demo_sc (\<lambda>k. 0) 0 (rev demo_folds) [demo_point]) =
     [(420, 310), (410, 320),
      (420, 310), (420, 250), (420, 450), (420, 650),
      (410, 320), (410, 240), (410, 440), (410, 640)]"
  unfolding demo_folds_def demo_accordion demo_diagonal
  by (simp add: demo_point_def mirrorDiagonal_45 mirrorPoint_def final_disc_def demo_sc_def
      Let_def)


lemma demo_engine_folds: "getFolds demo_engine = demo_folds"
  by (simp add: demo_engine_def demo_folds_def getFolds_def applyFold_def engine_init_def
      updateLayers_def js_Array_def demo_fc_def Let_def createAccordionFold_def
      createDiagonalFold_def or_num_def or_str_def empty_params_def)

lemma demo_engine_layers: "length (getLayers demo_engine) = 6"
  by (simp add: demo_engine_def getLayers_def applyFold_def engine_init_def
      updateLayers_def js_Array_def demo_fc_def Let_def createAccordionFold_def
      createDiagonalFold_def or_num_def or_str_def empty_params_def)

lemma demo_dye_points: "getDyePoints demo_dye = [demo_point]"
proof -
  have "isPointOnShirt demo_sc 420 310"
    by (simp add: isPointOnShirt_def createShirtGeometry_def demo_sc_def Let_def)
  then show ?thesis
    by (simp add: demo_dye_def getDyePoints_def startApplying_def applyDye_def Let_def
        demo_engine_layers dye_init_def setBrushSize_def setIntensity_def
        demo_point_def demo_dc_def)
qed

theorem unfold_renders_original_points_witness:
  "map (\<lambda>d. (d_x d, d_y d)) (generatePattern demo_sc (\<lambda>k. 0) demo_engine demo_dye) =
     [(420, 310), (410, 320), (420, 310), (420, 250), (420, 450), (420, 650)]"
proof -
  have "getFolds demo_engine \<noteq> []"
    by (simp add: demo_engine_folds demo_folds_def)
  from unfold_renders_original_points[OF this, of demo_sc "\<lambda>k. 0" demo_dye]
  show ?thesis
    using demo_independent
    by (simp add: demo_engine_folds demo_dye_points unfoldPattern_independent)
qed

text \<open>
  Claim C2 as stated fails on this input. The accumulating unfolder of the
  specification renders the mirror image across the first crease line of the diagonal
  reflection of the dye point, at \<open>(410, 240)\<close>; \<open>unfoldPattern\<close> renders no disc there,
  and its result differs from the accumulating one.
\<close>

theorem unfold_compound_counterexample:
  "(410, 240) \<in> (\<lambda>d. (d_x d, d_y d)) `
      set (spec_unfold_accumulating demo_sc (\<lambda>k. 0) 0 (rev demo_folds) [demo_point]) \<and>
   (410, 240) \<notin> (\<lambda>d. (d_x d, d_y d)) `
      set (unfoldPattern demo_sc (\<lambda>k. 0) demo_folds [demo_point]) \<and>
   unfoldPattern demo_sc (\<lambda>k. 0) demo_folds [demo_point] \<noteq>
     spec_unfold_accumulating demo_sc (\<lambda>k. 0) 0 (rev demo_folds) [demo_point]"
proof -
  have a: "(410, 240) \<in> (\<lambda>d. (d_x d, d_y d)) `
      set (spec_unfold_accumulating demo_sc (\<lambda>k. 0) 0 (rev demo_folds) [demo_point])"
    unfolding set_map[symmetric] demo_accumulating by simp
  have b: "(410, 240) \<notin> (\<lambda>d. (d_x d, d_y d)) `
      set (unfoldPattern demo_sc (\<lambda>k. 0) demo_folds [demo_point])"
    unfolding set_map[symmetric] demo_independent by simp
  from a b show ?thesis by metis
qed

end
